theory Spec2Isabelle
  imports
    Complex_Main
    "HOL-Library.AList"
    "HOL-Library.Char_ord"
    "HOL-Library.List_Lexorder"
    "HOL-Library.Sublist"
    "HOL-Library.Finite_Map"
begin

section \<open>Data model\<close>

subsection \<open>Floating-point values\<close>

text \<open>
  A float64 cell of a pandas column. The three special values of IEEE arithmetic are kept
  apart from the finite ones, because the outlier rule relies on what they do: a division by
  zero gives an infinity or NaN, and every comparison with NaN is false. Finite values are
  real numbers: rounding and the sign of zero are not modelled.
\<close>

datatype fl = Fin real | PInf | NInf | NaN

fun fneg :: "fl \<Rightarrow> fl" where
  "fneg (Fin x) = Fin (- x)"
| "fneg PInf = NInf"
| "fneg NInf = PInf"
| "fneg NaN = NaN"

fun fadd :: "fl \<Rightarrow> fl \<Rightarrow> fl" where
  "fadd NaN _ = NaN"
| "fadd _ NaN = NaN"
| "fadd (Fin x) (Fin y) = Fin (x + y)"
| "fadd PInf NInf = NaN"
| "fadd NInf PInf = NaN"
| "fadd PInf _ = PInf"
| "fadd NInf _ = NInf"
| "fadd (Fin x) PInf = PInf"
| "fadd (Fin x) NInf = NInf"

definition fsub :: "fl \<Rightarrow> fl \<Rightarrow> fl" where
  "fsub a b = fadd a (fneg b)"

fun fsign :: "fl \<Rightarrow> int" where
  "fsign (Fin x) = (if x < 0 then -1 else if x = 0 then 0 else 1)"
| "fsign PInf = 1"
| "fsign NInf = -1"
| "fsign NaN = 0"

definition inf_of_sign :: "int \<Rightarrow> fl" where
  "inf_of_sign s = (if s < 0 then NInf else if s = 0 then NaN else PInf)"

fun is_inf :: "fl \<Rightarrow> bool" where
  "is_inf PInf = True"
| "is_inf NInf = True"
| "is_inf _ = False"

fun fmul :: "fl \<Rightarrow> fl \<Rightarrow> fl" where
  "fmul NaN _ = NaN"
| "fmul _ NaN = NaN"
| "fmul (Fin x) (Fin y) = Fin (x * y)"
| "fmul a b = inf_of_sign (fsign a * fsign b)"

fun fdiv :: "fl \<Rightarrow> fl \<Rightarrow> fl" where
  "fdiv NaN _ = NaN"
| "fdiv _ NaN = NaN"
| "fdiv (Fin x) (Fin y) = (if y = 0 then inf_of_sign (fsign (Fin x)) else Fin (x / y))"
| "fdiv (Fin x) _ = Fin 0"
| "fdiv a (Fin y) = (if y < 0 then fneg a else a)"
| "fdiv _ _ = NaN"

fun fsqrt :: "fl \<Rightarrow> fl" where
  "fsqrt (Fin x) = (if x < 0 then NaN else Fin (sqrt x))"
| "fsqrt PInf = PInf"
| "fsqrt _ = NaN"

fun fabs :: "fl \<Rightarrow> fl" where
  "fabs (Fin x) = Fin \<bar>x\<bar>"
| "fabs NInf = PInf"
| "fabs a = a"

text \<open>\<open>a < b\<close> and \<open>a > b\<close> on floats: false as soon as one side is NaN.\<close>

fun flt :: "fl \<Rightarrow> fl \<Rightarrow> bool" where
  "flt NaN _ = False"
| "flt _ NaN = False"
| "flt (Fin x) (Fin y) = (x < y)"
| "flt (Fin x) PInf = True"
| "flt (Fin x) NInf = False"
| "flt PInf _ = False"
| "flt NInf NInf = False"
| "flt NInf _ = True"

definition fgt :: "fl \<Rightarrow> fl \<Rightarrow> bool" where
  "fgt a b = flt b a"

subsection \<open>Calendar dates\<close>

text \<open>
  A date is the number of days since 1970-01-01 (a Thursday), as in the UTC-normalised
  \<open>DatetimeIndex\<close> the pipeline builds. \<open>weekday\<close> is Python's: Monday is 0.
  \<open>year_of\<close> is the proleptic Gregorian year of a day number.
\<close>

type_synonym date = int

definition weekday :: "date \<Rightarrow> int" where
  "weekday d = (d + 3) mod 7"

definition is_business_day :: "date \<Rightarrow> bool" where
  "is_business_day d = (weekday d < 5)"

definition year_of :: "date \<Rightarrow> int" where
  "year_of d =
     (let z = d + 719468;
          era = z div 146097;
          doe = z - era * 146097;
          yoe = (doe - doe div 1460 + doe div 36524 - doe div 146096) div 365;
          doy = doe - (365 * yoe + yoe div 4 - yoe div 100);
          mp = (5 * doy + 2) div 153
      in yoe + era * 400 + (if mp < 10 then 0 else 1))"

text \<open>\<open>pd.date_range(start, end, freq="B")\<close>: the Monday-to-Friday days from start to end,
  both ends included; no holiday calendar.\<close>

definition bdate_range :: "date \<Rightarrow> date \<Rightarrow> date list" where
  "bdate_range start end = filter is_business_day [start..end]"

subsection \<open>Tables\<close>

text \<open>
  A cell of a column is a float (NaN is the null of a numeric column), a string or Python's
  \<open>None\<close> (the last two occur in columns of object dtype only). A column carries its dtype
  as the one bit the validation reads.
\<close>

datatype cell = Num fl | Str string | PyNone

record column =
  object_dtype :: bool
  cells :: "cell list"

text \<open>
  The index of a table is a \<open>DatetimeIndex\<close> of UTC calendar dates, or it is not
  date-typed; of the indexes that are not, the model has pandas' default one, the
  \<open>RangeIndex\<close> \<open>0, \<dots>, n - 1\<close>.
\<close>

datatype index = DatetimeIndex "date list" | RangeIndex nat

record table =
  index_name :: "string option"
  index :: index
  columns :: "(string \<times> column) list"

fun index_len :: "index \<Rightarrow> nat" where
  "index_len (DatetimeIndex ds) = length ds"
| "index_len (RangeIndex n) = n"

definition column_names :: "table \<Rightarrow> string list" where
  "column_names data = map fst (columns data)"

text \<open>\<open>df.empty\<close>: some axis has length 0.\<close>

definition df_empty :: "table \<Rightarrow> bool" where
  "df_empty df = (index_len (index df) = 0 \<or> columns df = [])"

text \<open>The exceptions the modelled code can raise.\<close>

datatype exn = ValueError | AttributeError | TypeError | KeyError | JSONDecodeError

definition bind :: "exn + 'a \<Rightarrow> ('a \<Rightarrow> exn + 'b) \<Rightarrow> exn + 'b" where
  "bind m f = (case m of Inl e \<Rightarrow> Inl e | Inr x \<Rightarrow> f x)"

section \<open>Storage: \<open>parquet_store.py\<close>\<close>

subsection \<open>Files\<close>

text \<open>
  A JSON document as \<open>json.loads\<close> returns it; an object is a finite map, as a Python
  dict compares. A file holds a table (a parquet file), a JSON document (a text file that
  parses to it) or anything else. The file system maps a path to the file it holds;
  directories are implicit in the paths.
\<close>

datatype json =
    JNull | JBool bool | JNum real | JStr string
  | JList "json list" | JObj "(string, json) fmap"

datatype file_content = ParquetFile table | JsonFile json | OtherFile

type_synonym path = string

type_synonym fs = "path \<rightharpoonup> file_content"

record DatasetWriteResult =
  path :: path
  rows :: int

fun digits :: "nat \<Rightarrow> string" where
  "digits n =
     (if n < 10 then [''0123456789'' ! n]
      else digits (n div 10) @ [''0123456789'' ! (n mod 10)])"

text \<open>\<open>str(n)\<close> of a Python int.\<close>

definition str_int :: "int \<Rightarrow> string" where
  "str_int i = (if i < 0 then ''-'' @ digits (nat (- i)) else digits (nat i))"

text \<open>\<open>p / name\<close> of pathlib, for a plain component name.\<close>

definition join :: "path \<Rightarrow> string \<Rightarrow> path" where
  "join p name = p @ ''/'' @ name"

subsection \<open>Writers\<close>

definition write_parquet :: "table \<Rightarrow> path \<Rightarrow> fs \<Rightarrow> DatasetWriteResult \<times> fs" where
  "write_parquet df p files =
     (\<lparr>path = p, rows = int (index_len (index df))\<rparr>, files(p \<mapsto> ParquetFile df))"

text \<open>\<open>df[mask]\<close>: the rows where the mask holds.\<close>

definition select :: "bool list \<Rightarrow> 'a list \<Rightarrow> 'a list" where
  "select msk xs = map snd (filter fst (zip msk xs))"

definition filter_rows :: "bool list \<Rightarrow> date list \<Rightarrow> table \<Rightarrow> table" where
  "filter_rows msk ds df =
     df\<lparr>index := DatetimeIndex (select msk ds),
        columns := map (\<lambda>(name, c). (name, c\<lparr>cells := select msk (cells c)\<rparr>)) (columns df)\<rparr>"

fun write_years ::
  "table \<Rightarrow> date list \<Rightarrow> path \<Rightarrow> string \<Rightarrow> string \<Rightarrow> int list \<Rightarrow>
   DatasetWriteResult list \<Rightarrow> fs \<Rightarrow> DatasetWriteResult list \<times> fs" where
  "write_years df ds base_dir source run_id [] results files = (results, files)"
| "write_years df ds base_dir source run_id (year # years) results files =
     (let ydf = filter_rows (map (\<lambda>d. year_of d = year) ds) ds df;
          p = join (join (join (join base_dir ''raw'') (''source='' @ source))
                (''year='' @ str_int year)) (''run_id='' @ run_id @ ''.parquet'');
          (r, files') = write_parquet ydf p files
      in write_years df ds base_dir source run_id years (results @ [r]) files')"

text \<open>\<open>df.index.year\<close> exists on a \<open>DatetimeIndex\<close> only.\<close>

definition write_partitioned_by_year ::
  "table \<Rightarrow> path \<Rightarrow> string \<Rightarrow> string \<Rightarrow> fs \<Rightarrow> exn + (DatasetWriteResult list \<times> fs)" where
  "write_partitioned_by_year df base_dir source run_id files =
     (if df_empty df then Inr ([], files)
      else case index df of
             RangeIndex n \<Rightarrow> Inl AttributeError
           | DatetimeIndex ds \<Rightarrow>
               Inr (write_years df ds base_dir source run_id
                      (sort (remdups (map year_of ds))) [] files))"

definition write_standardized :: "table \<Rightarrow> path \<Rightarrow> string \<Rightarrow> fs \<Rightarrow> DatasetWriteResult \<times> fs" where
  "write_standardized df base_dir run_id files =
     write_parquet df (join (join base_dir ''standardized'') (''run_id='' @ run_id @ ''.parquet'')) files"

subsection \<open>Catalog\<close>

text \<open>
  \<open>append_catalog_entry\<close>: read the document if the file exists (\<open>json.loads\<close> raises on a
  file that is not JSON), wrap a document that is not a list into a one-element list,
  append the entry and write the whole list back. The entry is the JSON value that
  \<open>json.dumps(\<dots>, default=str)\<close> writes for it.
\<close>

definition append_catalog_entry :: "path \<Rightarrow> json \<Rightarrow> fs \<Rightarrow> exn + fs" where
  "append_catalog_entry catalog_path entry files =
     bind (case files catalog_path of
             Some (JsonFile (JList es)) \<Rightarrow> Inr es
           | Some (JsonFile doc) \<Rightarrow> Inr [doc]
           | Some _ \<Rightarrow> Inl JSONDecodeError
           | None \<Rightarrow> Inr [])
       (\<lambda>existing. Inr (files(catalog_path \<mapsto> JsonFile (JList (existing @ [entry])))))"

text \<open>The entries a catalog file holds, as the next append reads them.\<close>

definition catalog_entries :: "file_content option \<Rightarrow> json list" where
  "catalog_entries f =
     (case f of Some (JsonFile (JList es)) \<Rightarrow> es | Some (JsonFile doc) \<Rightarrow> [doc] | _ \<Rightarrow> [])"


text \<open>A catalog path that \<open>json.loads\<close> can read: no file there, or a JSON document.\<close>

definition readable_catalog :: "file_content option \<Rightarrow> bool" where
  "readable_catalog f = (case f of None \<Rightarrow> True | Some (JsonFile doc) \<Rightarrow> True | Some other \<Rightarrow> False)"

section \<open>Validation: \<open>checks.py\<close>\<close>

subsection \<open>Reports\<close>

text \<open>
  Every entry of \<open>errors\<close> and \<open>warnings\<close> is an f-string of the source; a message is the
  template (the constructor) with the values interpolated into it:
  \<^item> \<open>IndexNameError\<close>: "Schema error: index name must be 'date'."
  \<^item> \<open>IndexTypeError\<close>: "Schema error: index must be DatetimeIndex."
  \<^item> \<open>DuplicateDates\<close>: "Duplicate dates found in standardized dataset."
  \<^item> \<open>NotMonotonic\<close>: "Dates are not monotonic increasing."
  \<^item> \<open>MissingColumns cols\<close>: "Schema error: missing expected columns: \{cols\}"
  \<^item> \<open>OptionalUnavailable col\<close>: "Optional column unavailable: \{col\}"
  \<^item> \<open>EmptyData col\<close>: "Required series/ticker \{col\} has empty data."
  \<^item> \<open>MixedValues col\<close>: "Mixed/non-numeric values found in column \{col\}."
  \<^item> \<open>ObjectDtype col\<close>: "Column \{col\} has object dtype; expected numeric."
  \<^item> \<open>ImpossibleValues col n\<close>: "Impossible values detected in \{col\}: \{n\} rows."
  \<^item> \<open>OutlierMarket col n\<close>: "Outlier flag on market series \{col\}: \{n\} rows with |z| > 8."
  \<^item> \<open>OutlierFred col n\<close>: "Outlier flag on FRED series \{col\}: \{n\} rows with |z| > 8."
  \<^item> \<open>StaleSeries col latest age threshold\<close>:
    "Stale series \{col\}: latest \{latest\} (\{age\} days old, threshold \{threshold\})."
\<close>

datatype msg =
    IndexNameError
  | IndexTypeError
  | DuplicateDates
  | NotMonotonic
  | MissingColumns "string list"
  | OptionalUnavailable string
  | EmptyData string
  | MixedValues string
  | ObjectDtype string
  | ImpossibleValues string nat
  | OutlierMarket string nat
  | OutlierFred string nat
  | StaleSeries string date int int

text \<open>
  The values of the metrics dict. A dict is an association list in insertion order;
  \<open>AList.update\<close> is Python's \<open>d[k] = v\<close>: it replaces the value of a key that is there
  and appends a new key at the end. \<open>PDate d\<close> is the ISO string of the date \<open>d\<close>.
\<close>

datatype pyval =
    PInt int | PFloat fl | PDate date | PNone
  | PList "string list" | PDict "(string \<times> pyval) list"

type_synonym dict = "(string \<times> pyval) list"

record ValidationReport =
  errors :: "msg list"
  warnings :: "msg list"
  metrics :: dict

definition is_success :: "ValidationReport \<Rightarrow> bool" where
  "is_success r = (length (errors r) = 0)"

definition add_error :: "msg \<Rightarrow> ValidationReport \<Rightarrow> ValidationReport" where
  "add_error m st = st\<lparr>errors := errors st @ [m]\<rparr>"

definition add_warning :: "msg \<Rightarrow> ValidationReport \<Rightarrow> ValidationReport" where
  "add_warning m st = st\<lparr>warnings := warnings st @ [m]\<rparr>"

text \<open>\<open>metrics[k][col] = v\<close>, \<open>metrics[k].append(col)\<close> and \<open>metrics[k].items()\<close>.\<close>

definition set_item2 :: "string \<Rightarrow> string \<Rightarrow> pyval \<Rightarrow> dict \<Rightarrow> exn + dict" where
  "set_item2 k col v m =
     (case map_of m k of
        None \<Rightarrow> Inl KeyError
      | Some (PDict d) \<Rightarrow> Inr (AList.update k (PDict (AList.update col v d)) m)
      | Some other \<Rightarrow> Inl TypeError)"

definition append_item :: "string \<Rightarrow> string \<Rightarrow> dict \<Rightarrow> exn + dict" where
  "append_item k col m =
     (case map_of m k of
        None \<Rightarrow> Inl KeyError
      | Some (PList xs) \<Rightarrow> Inr (AList.update k (PList (xs @ [col])) m)
      | Some other \<Rightarrow> Inl AttributeError)"

definition dict_items :: "string \<Rightarrow> dict \<Rightarrow> exn + (string \<times> pyval) list" where
  "dict_items k m =
     (case map_of m k of
        None \<Rightarrow> Inl KeyError
      | Some (PDict d) \<Rightarrow> Inr d
      | Some other \<Rightarrow> Inl AttributeError)"

text \<open>A \<open>for\<close> loop over a list whose body may raise.\<close>

fun for_each :: "('a \<Rightarrow> 's \<Rightarrow> exn + 's) \<Rightarrow> 'a list \<Rightarrow> 's \<Rightarrow> exn + 's" where
  "for_each body [] st = Inr st"
| "for_each body (x # xs) st = bind (body x st) (for_each body xs)"

subsection \<open>Series operations of pandas\<close>

text \<open>
  Two things the source leaves to the installed pandas: the parser \<open>pd.to_numeric\<close> applies
  to a string cell (NaN for a string that is not a number), and whether \<open>pct_change\<close>
  forward-fills nulls first (its default \<open>fill_method\<close> up to pandas 2, not from pandas 3).
\<close>

record pandas =
  parse_numeric :: "string \<Rightarrow> fl"
  pct_change_pads :: bool

fun isna :: "cell \<Rightarrow> bool" where
  "isna (Num x) = (x = NaN)"
| "isna (Str s) = False"
| "isna PyNone = True"

text \<open>\<open>data[col]\<close> is a Series, or a DataFrame when the name labels several columns.\<close>

datatype selection = Series column | Frame

definition getitem :: "table \<Rightarrow> string \<Rightarrow> selection" where
  "getitem data col =
     (case filter (\<lambda>(name, c). name = col) (columns data) of
        [(name, c)] \<Rightarrow> Series c
      | other \<Rightarrow> Frame)"

fun to_numeric_cell :: "pandas \<Rightarrow> cell \<Rightarrow> fl" where
  "to_numeric_cell pd (Num x) = x"
| "to_numeric_cell pd (Str s) = parse_numeric pd s"
| "to_numeric_cell pd PyNone = NaN"

text \<open>\<open>pd.to_numeric(data[col], errors="coerce")\<close>; a DataFrame is a \<open>TypeError\<close>.\<close>

definition to_numeric :: "pandas \<Rightarrow> selection \<Rightarrow> exn + fl list" where
  "to_numeric pd sel =
     (case sel of Frame \<Rightarrow> Inl TypeError | Series s \<Rightarrow> Inr (map (to_numeric_cell pd) (cells s)))"

definition shift1 :: "fl list \<Rightarrow> fl list" where
  "shift1 xs = (case xs of [] \<Rightarrow> [] | y # ys \<Rightarrow> NaN # butlast xs)"

definition series_diff :: "fl list \<Rightarrow> fl list" where
  "series_diff xs = map2 fsub xs (shift1 xs)"

fun ffill_from :: "fl \<Rightarrow> fl list \<Rightarrow> fl list" where
  "ffill_from prev [] = []"
| "ffill_from prev (x # xs) = (if x = NaN then prev # ffill_from prev xs else x # ffill_from x xs)"

definition ffill :: "fl list \<Rightarrow> fl list" where
  "ffill xs = ffill_from NaN xs"

definition pct_change :: "pandas \<Rightarrow> fl list \<Rightarrow> fl list" where
  "pct_change pd xs =
     (let filled = (if pct_change_pads pd then ffill xs else xs)
      in map2 (\<lambda>a b. fsub (fdiv a b) (Fin 1)) filled (shift1 filled))"

definition dropna_fl :: "fl list \<Rightarrow> fl list" where
  "dropna_fl xs = filter (\<lambda>x. x \<noteq> NaN) xs"

definition fsum :: "fl list \<Rightarrow> fl" where
  "fsum xs = foldl fadd (Fin 0) xs"

text \<open>\<open>mean(skipna=True)\<close> and \<open>std(skipna=True)\<close> (sample deviation, \<open>ddof = 1\<close>).\<close>

definition mean_skipna :: "fl list \<Rightarrow> fl" where
  "mean_skipna xs =
     (let v = dropna_fl xs
      in if v = [] then NaN else fdiv (fsum v) (Fin (real (length v))))"

definition std_skipna :: "fl list \<Rightarrow> fl" where
  "std_skipna xs =
     (let v = dropna_fl xs; n = length v
      in if n \<le> 1 then NaN
         else let avg = fdiv (fsum v) (Fin (real n));
                  sqr = map (\<lambda>x. fmul (fsub avg x) (fsub avg x)) v
              in fsqrt (fdiv (fsum sqr) (Fin (real n - 1))))"

text \<open>\<open>np.isclose(std, 0, equal_nan=True)\<close>: within the absolute tolerance \<open>1e-8\<close> of 0; NaN
  is close to NaN only.\<close>

fun isclose_zero :: "fl \<Rightarrow> bool" where
  "isclose_zero (Fin x) = (\<bar>x\<bar> \<le> 1 / 10 ^ 8)"
| "isclose_zero a = False"

text \<open>Python's \<open>round(x, 4)\<close>: to the nearest multiple of \<open>0.0001\<close>, ties to even.\<close>

definition round_half_even :: "real \<Rightarrow> int" where
  "round_half_even x =
     (let f = \<lfloor>x\<rfloor>; r = x - of_int f
      in if r < 1 / 2 then f else if 1 / 2 < r then f + 1 else if even f then f else f + 1)"

fun round4 :: "fl \<Rightarrow> fl" where
  "round4 (Fin x) = Fin (of_int (round_half_even (x * 10000)) / 10000)"
| "round4 a = a"

subsection \<open>The two helpers of \<open>checks.py\<close>\<close>

fun gap_loop :: "bool list \<Rightarrow> nat \<Rightarrow> nat \<Rightarrow> nat" where
  "gap_loop [] max_gap current = max_gap"
| "gap_loop (is_missing # miss) max_gap current =
     (if is_missing then gap_loop miss (max max_gap (current + 1)) (current + 1)
      else gap_loop miss max_gap 0)"

definition largest_consecutive_missing_business_days :: "cell list \<Rightarrow> nat" where
  "largest_consecutive_missing_business_days series =
     (if series = [] then 0 else gap_loop (map isna series) 0 0)"

definition zscore_flags :: "pandas \<Rightarrow> fl list \<Rightarrow> string \<Rightarrow> bool list" where
  "zscore_flags pd vals kind =
     (if vals = [] then []
      else let changes = (if kind = ''pct_change'' then pct_change pd vals else series_diff vals);
               std = std_skipna changes
           in if isclose_zero std then map (\<lambda>v. False) vals
              else let z = map (\<lambda>c. fdiv (fsub c (mean_skipna changes)) std) changes
                   in map (\<lambda>x. fgt (fabs x) (Fin 8)) z)"

subsection \<open>\<open>validate_dataset\<close>\<close>

text \<open>The start value of the local \<open>metrics\<close>.\<close>

definition init_metrics :: "table \<Rightarrow> dict" where
  "init_metrics data =
     [(''row_count'', PInt (int (index_len (index data)))),
      (''column_count'', PInt (int (length (columns data)))),
      (''missing_pct'', PDict []),
      (''largest_missing_business_gap'', PDict []),
      (''latest_date'', PDict []),
      (''outlier_counts'', PDict []),
      (''stale_series'', PList [])]"

text \<open>
  The running state of \<open>validate_dataset\<close> is the report under construction; its
  \<open>metrics\<close> field holds the local variable \<open>metrics\<close>, which the source stores into the
  report in its last statement.
\<close>

definition check_schema :: "table \<Rightarrow> ValidationReport \<Rightarrow> ValidationReport" where
  "check_schema data st =
     (let st1 = (if index_name data \<noteq> Some ''date'' then add_error IndexNameError st else st)
      in case index data of
           RangeIndex n \<Rightarrow> add_error IndexTypeError st1
         | DatetimeIndex ds \<Rightarrow>
             (let st2 = (if \<not> distinct ds then add_error DuplicateDates st1 else st1)
              in if \<not> sorted ds then add_error NotMonotonic st2 else st2))"

text \<open>\<open>sorted(set(wanted) - set(data.columns.tolist()))\<close>.\<close>

definition sorted_missing :: "string list \<Rightarrow> table \<Rightarrow> string list" where
  "sorted_missing wanted data =
     sort (remdups (filter (\<lambda>c. c \<notin> set (column_names data)) wanted))"

definition check_columns :: "table \<Rightarrow> string list \<Rightarrow> string list \<Rightarrow> ValidationReport \<Rightarrow> ValidationReport" where
  "check_columns data required_columns optional_columns st =
     (let missing_columns = sorted_missing required_columns data;
          st1 = (if missing_columns \<noteq> [] then add_error (MissingColumns missing_columns) st else st);
          missing_optional = sorted_missing optional_columns data
      in fold (\<lambda>col. add_warning (OptionalUnavailable col)) missing_optional st1)"

text \<open>
  \<open>pd.date_range(data.index.min(), data.index.max(), freq="B", tz="UTC")\<close>. The minimum of
  an empty index is NaT (NaN for a \<open>RangeIndex\<close>), which \<open>date_range\<close> rejects. The labels
  \<open>0\<close> and \<open>n - 1\<close> of a \<open>RangeIndex\<close> are read as nanoseconds since 1970-01-01.
\<close>

definition business_index :: "index \<Rightarrow> exn + date list" where
  "business_index ix =
     (case ix of
        DatetimeIndex ds \<Rightarrow>
          if ds = [] then Inl ValueError else Inr (bdate_range (Min (set ds)) (Max (set ds)))
      | RangeIndex n \<Rightarrow>
          if n = 0 then Inl ValueError
          else Inr (bdate_range 0 ((int n - 1) div 86400000000000)))"

text \<open>
  \<open>series.reindex(b_idx)\<close>: the value at each date of \<open>b_idx\<close>, NaN where the series has
  none. An index with duplicate labels cannot be reindexed; no label of a \<open>RangeIndex\<close>
  equals a date.
\<close>

definition reindex :: "index \<Rightarrow> cell list \<Rightarrow> date list \<Rightarrow> exn + cell list" where
  "reindex ix series b_idx =
     (case ix of
        DatetimeIndex ds \<Rightarrow>
          if \<not> distinct ds then Inl ValueError
          else Inr (map (\<lambda>d. case map_of (zip ds series) d of Some c \<Rightarrow> c | None \<Rightarrow> Num NaN) b_idx)
      | RangeIndex n \<Rightarrow> Inr (map (\<lambda>d. Num NaN) b_idx))"

text \<open>
  \<open>non_na_index.max().date().isoformat() if len(non_na_index) else None\<close>: the label of a
  \<open>RangeIndex\<close> is an integer, which has no \<open>date\<close> method.
\<close>

definition latest_date :: "index \<Rightarrow> cell list \<Rightarrow> exn + pyval" where
  "latest_date ix series =
     (case ix of
        DatetimeIndex ds \<Rightarrow>
          (let non_na_index = map fst (filter (\<lambda>(d, c). \<not> isna c) (zip ds series))
           in if non_na_index = [] then Inr PNone else Inr (PDate (Max (set non_na_index))))
      | RangeIndex n \<Rightarrow>
          (let non_na_index = map fst (filter (\<lambda>(i, c). \<not> isna c) (zip [0..<n] series))
           in if non_na_index = [] then Inr PNone else Inl AttributeError))"

definition isna_mean :: "cell list \<Rightarrow> fl" where
  "isna_mean series =
     (if series = [] then NaN
      else Fin (real (length (filter isna series)) / real (length series)))"

definition check_required_column ::
  "pandas \<Rightarrow> table \<Rightarrow> string \<Rightarrow> ValidationReport \<Rightarrow> exn + ValidationReport" where
  "check_required_column pd data col st =
     (if col \<notin> set (column_names data) then Inr st
      else case getitem data col of
        Frame \<Rightarrow> Inl TypeError
      | Series s \<Rightarrow>
         (let series = cells s;
              st1 = (if series = [] \<or> filter (\<lambda>c. \<not> isna c) series = []
                     then add_error (EmptyData col) st else st);
              num = map (to_numeric_cell pd) series;
              st2 = (if length (filter (\<lambda>x. x = NaN) num) \<noteq> length (filter isna series)
                     then add_error (MixedValues col) st1 else st1);
              st3 = (if object_dtype s then add_warning (ObjectDtype col) st2 else st2);
              missing_pct = fmul (isna_mean series) (Fin 100)
          in bind (set_item2 ''missing_pct'' col (PFloat (round4 missing_pct)) (metrics st3)) (\<lambda>m1.
             bind (business_index (index data)) (\<lambda>b_idx.
             bind (reindex (index data) series b_idx) (\<lambda>reindexed.
             bind (set_item2 ''largest_missing_business_gap'' col
                     (PInt (int (largest_consecutive_missing_business_days reindexed))) m1) (\<lambda>m2.
             bind (latest_date (index data) series) (\<lambda>latest.
             bind (set_item2 ''latest_date'' col latest m2) (\<lambda>m3.
             Inr (st3\<lparr>metrics := m3\<rparr>)))))))))"

definition negative :: "fl \<Rightarrow> bool" where
  "negative s = flt s (Fin 0)"

definition impossible_rules :: "table \<Rightarrow> (string \<times> (fl \<Rightarrow> bool)) list" where
  "impossible_rules data =
     [(''fred_DGS10'', negative),
      (''fred_DGS2'', negative),
      (''fred_CPIAUCSL'', negative),
      (''fred_UNRATE'', negative),
      (''fred_BAA10YM'', negative)]
     @ map (\<lambda>col. (col, negative)) (filter (suffix ''__adj_close'') (column_names data))
     @ map (\<lambda>col. (col, negative)) (filter (suffix ''__volume'') (column_names data))"

definition check_impossible ::
  "pandas \<Rightarrow> table \<Rightarrow> string \<times> (fl \<Rightarrow> bool) \<Rightarrow> ValidationReport \<Rightarrow> exn + ValidationReport" where
  "check_impossible pd data entry st =
     (case entry of (col, rule) \<Rightarrow>
        if col \<in> set (column_names data)
        then bind (to_numeric pd (getitem data col)) (\<lambda>num.
               let invalid_count = length (filter rule num)
               in Inr (if invalid_count > 0
                       then add_warning (ImpossibleValues col invalid_count) st else st))
        else Inr st)"

definition check_outliers ::
  "pandas \<Rightarrow> table \<Rightarrow> string \<Rightarrow> (string \<Rightarrow> nat \<Rightarrow> msg) \<Rightarrow> string \<Rightarrow> ValidationReport \<Rightarrow>
   exn + ValidationReport" where
  "check_outliers pd data kind message col st =
     (if col \<notin> set (column_names data) then Inr st
      else bind (to_numeric pd (getitem data col)) (\<lambda>num.
           let flags = zscore_flags pd num kind;
               count = length (filter id flags)
           in bind (set_item2 ''outlier_counts'' col (PInt (int count)) (metrics st)) (\<lambda>m.
              let st1 = st\<lparr>metrics := m\<rparr>
              in Inr (if count > 0 then add_warning (message col count) st1 else st1))))"

text \<open>
  The staleness step for one item of \<open>metrics["latest_date"]\<close>; \<open>now_date\<close> is what
  \<open>datetime.now(timezone.utc).date()\<close> returned. Parsing the ISO string gives the date back.
\<close>

definition check_stale ::
  "date \<Rightarrow> string \<times> pyval \<Rightarrow> ValidationReport \<Rightarrow> exn + ValidationReport" where
  "check_stale now_date item st =
     (case item of
        (col, PNone) \<Rightarrow> Inr st
      | (col, PDate latest) \<Rightarrow>
          (let age = now_date - latest;
               is_macro = prefix ''fred_'' col;
               threshold = (if is_macro then 45 else 7)
           in if age > threshold
              then bind (append_item ''stale_series'' col (metrics st)) (\<lambda>m.
                     Inr ((add_warning (StaleSeries col latest age threshold) st)\<lparr>metrics := m\<rparr>))
              else Inr st)
      | (col, other) \<Rightarrow> Inl TypeError)"

definition finish :: "ValidationReport \<Rightarrow> ValidationReport" where
  "finish st =
     st\<lparr>metrics :=
          AList.update ''errors_count'' (PInt (int (length (errors st))))
            (AList.update ''warnings_count'' (PInt (int (length (warnings st)))) (metrics st))\<rparr>"

definition validate_dataset ::
  "pandas \<Rightarrow> date \<Rightarrow> table \<Rightarrow> string list \<Rightarrow> string list \<Rightarrow> string list \<Rightarrow> string list \<Rightarrow>
   exn + ValidationReport" where
  "validate_dataset pd now_date data required_columns optional_columns market_columns fred_columns =
     (let st0 = \<lparr>errors = [], warnings = [], metrics = init_metrics data\<rparr>;
          st1 = check_schema data st0;
          st2 = check_columns data required_columns optional_columns st1
      in bind (for_each (check_required_column pd data) required_columns st2) (\<lambda>st3.
         bind (for_each (check_impossible pd data) (impossible_rules data) st3) (\<lambda>st4.
         bind (for_each (check_outliers pd data ''pct_change'' OutlierMarket) market_columns st4) (\<lambda>st5.
         bind (for_each (check_outliers pd data ''abs_change'' OutlierFred) fred_columns st5) (\<lambda>st6.
         bind (dict_items ''latest_date'' (metrics st6)) (\<lambda>items.
         bind (for_each (check_stale now_date) items st6) (\<lambda>st7.
         Inr (finish st7))))))))"

text \<open>
  The same call seen from outside: the world it runs in is the clock and the file system;
  the call reads the clock and returns the world it was given.
\<close>

record world =
  clock :: date
  file_system :: fs

definition run_validate_dataset ::
  "pandas \<Rightarrow> table \<Rightarrow> string list \<Rightarrow> string list \<Rightarrow> string list \<Rightarrow> string list \<Rightarrow> world \<Rightarrow>
   (exn + ValidationReport) \<times> world" where
  "run_validate_dataset pd data required_columns optional_columns market_columns fred_columns w =
     (validate_dataset pd (clock w) data required_columns optional_columns market_columns fred_columns, w)"

section \<open>Invariants used in the proofs\<close>

definition dict_keys :: "dict \<Rightarrow> string set" where
  "dict_keys m = fst ` set m"

fun is_dict :: "pyval option \<Rightarrow> bool" where
  "is_dict (Some (PDict d)) = True"
| "is_dict other = False"

fun is_list :: "pyval option \<Rightarrow> bool" where
  "is_list (Some (PList xs)) = True"
| "is_list other = False"

definition shaped :: "dict \<Rightarrow> bool" where
  "shaped m =
     (is_dict (map_of m ''missing_pct'') \<and> is_dict (map_of m ''largest_missing_business_gap'')
      \<and> is_dict (map_of m ''latest_date'') \<and> is_dict (map_of m ''outlier_counts'')
      \<and> is_list (map_of m ''stale_series'')
      \<and> ''row_count'' \<in> dict_keys m \<and> ''column_count'' \<in> dict_keys m)"

definition required_errors :: "pandas \<Rightarrow> string \<Rightarrow> column \<Rightarrow> msg list" where
  "required_errors pd col s =
     (if cells s = [] \<or> filter (\<lambda>c. \<not> isna c) (cells s) = [] then [EmptyData col] else [])
     @ (if length (filter (\<lambda>x. x = NaN) (map (to_numeric_cell pd) (cells s)))
           \<noteq> length (filter isna (cells s)) then [MixedValues col] else [])"

fun date_or_none :: "pyval \<Rightarrow> bool" where
  "date_or_none PNone = True"
| "date_or_none (PDate d) = True"
| "date_or_none other = False"

definition threshold_of :: "string \<Rightarrow> int" where
  "threshold_of col = (if prefix ''fred_'' col then 45 else 7)"

fun stale_item :: "date \<Rightarrow> string \<times> pyval \<Rightarrow> bool" where
  "stale_item now_date (col, PDate latest) = (threshold_of col < now_date - latest)"
| "stale_item now_date (col, other) = False"

fun stale_message :: "date \<Rightarrow> string \<times> pyval \<Rightarrow> msg" where
  "stale_message now_date (col, PDate latest) =
     StaleSeries col latest (now_date - latest) (threshold_of col)"
| "stale_message now_date (col, other) = StaleSeries col 0 0 0"

fun is_integrity_error :: "msg \<Rightarrow> bool" where
  "is_integrity_error (EmptyData col) = True"
| "is_integrity_error (MixedValues col) = True"
| "is_integrity_error other = False"

fun is_stale :: "msg \<Rightarrow> bool" where
  "is_stale (StaleSeries col latest age threshold) = True"
| "is_stale other = False"

definition extends :: "ValidationReport \<Rightarrow> ValidationReport \<Rightarrow> bool" where
  "extends st st' =
     ((\<exists>extra. errors st' = errors st @ extra \<and> list_all is_integrity_error extra)
      \<and> (\<exists>w. warnings st' = warnings st @ w \<and> list_all (\<lambda>m. \<not> is_stale m) w)
      \<and> dict_keys (metrics st') = dict_keys (metrics st)
      \<and> (shaped (metrics st) \<longrightarrow> shaped (metrics st'))
      \<and> map_of (metrics st') ''stale_series'' = map_of (metrics st) ''stale_series''
      \<and> map_of (metrics st') ''row_count'' = map_of (metrics st) ''row_count''
      \<and> map_of (metrics st') ''column_count'' = map_of (metrics st) ''column_count'')"

text \<open>The later stages leave the errors and every metric but the outlier counts alone.\<close>

definition keeps :: "ValidationReport \<Rightarrow> ValidationReport \<Rightarrow> bool" where
  "keeps st st' =
     (errors st' = errors st
      \<and> (\<forall>k. k \<noteq> ''outlier_counts'' \<longrightarrow> map_of (metrics st') k = map_of (metrics st) k))"

definition start_state :: "table \<Rightarrow> string list \<Rightarrow> string list \<Rightarrow> ValidationReport" where
  "start_state data required_columns optional_columns =
     check_columns data required_columns optional_columns
       (check_schema data \<lparr>errors = [], warnings = [], metrics = init_metrics data\<rparr>)"

fun is_schema_error :: "msg \<Rightarrow> bool" where
  "is_schema_error IndexNameError = True"
| "is_schema_error IndexTypeError = True"
| "is_schema_error DuplicateDates = True"
| "is_schema_error NotMonotonic = True"
| "is_schema_error other = False"

fun is_missing_columns :: "msg \<Rightarrow> bool" where
  "is_missing_columns (MissingColumns cols) = True"
| "is_missing_columns other = False"

definition latest_ok :: "dict \<Rightarrow> bool" where
  "latest_ok m =
     (\<exists>d. map_of m ''latest_date'' = Some (PDict d) \<and> distinct (map fst d)
          \<and> list_all (\<lambda>item. date_or_none (snd item)) d)"

section \<open>Notions of the specification\<close>

text \<open>A monitored column of the sign check: one of the five macro series, or a column whose
  name ends in the adjusted-close or the volume suffix.\<close>

definition monitored :: "string \<Rightarrow> bool" where
  "monitored col =
     (col \<in> set [''fred_DGS10'', ''fred_DGS2'', ''fred_CPIAUCSL'', ''fred_UNRATE'', ''fred_BAA10YM'']
      \<or> suffix ''__adj_close'' col \<or> suffix ''__volume'' col)"

text \<open>The number of rows of a column whose numeric value is below zero.\<close>

definition negative_rows :: "pandas \<Rightarrow> column \<Rightarrow> nat" where
  "negative_rows pd s = length (filter (\<lambda>c. flt (to_numeric_cell pd c) (Fin 0)) (cells s))"

section \<open>A sample run\<close>

text \<open>
  Three rows, Monday 2024-01-01, Tuesday 2024-01-02 and Friday 2024-01-05 (days 19723,
  19724 and 19727), a macro column with one null and a price column with two negative
  values; the required macro column \<open>fred_DGS2\<close> and the optional volume column are absent.
\<close>

definition example_pandas :: pandas where
  "example_pandas = \<lparr>parse_numeric = (\<lambda>s. NaN), pct_change_pads = True\<rparr>"

definition example_table :: table where
  "example_table =
     \<lparr>index_name = Some ''date'',
      index = DatetimeIndex [19723, 19724, 19727],
      columns =
        [(''fred_DGS10'', \<lparr>object_dtype = False, cells = [Num (Fin 4), Num NaN, Num (Fin 4)]\<rparr>),
         (''yfin_SPY__adj_close'',
            \<lparr>object_dtype = False, cells = [Num (Fin (- 1)), Num (Fin 401), Num (Fin (- 2))]\<rparr>)]\<rparr>"

definition example_required :: "string list" where
  "example_required = [''fred_DGS10'', ''fred_DGS2'', ''yfin_SPY__adj_close'']"

definition example_metrics :: dict where
  "example_metrics =
     [(''row_count'', PInt 3), (''column_count'', PInt 2),
      (''missing_pct'',
         PDict [(''fred_DGS10'', PFloat (Fin (333333 / 10000))),
                (''yfin_SPY__adj_close'', PFloat (Fin 0))]),
      (''largest_missing_business_gap'',
         PDict [(''fred_DGS10'', PInt 3), (''yfin_SPY__adj_close'', PInt 2)]),
      (''latest_date'',
         PDict [(''fred_DGS10'', PDate 19727), (''yfin_SPY__adj_close'', PDate 19727)]),
      (''outlier_counts'', PDict [(''fred_DGS10'', PInt 0)]),
      (''stale_series'', PList [''yfin_SPY__adj_close'']),
      (''warnings_count'', PInt 3), (''errors_count'', PInt 1)]"

definition example_report :: ValidationReport where
  "example_report =
     \<lparr>errors = [MissingColumns [''fred_DGS2'']],
      warnings =
        [OptionalUnavailable ''yfin_SPY__volume'',
         ImpossibleValues ''yfin_SPY__adj_close'' 2,
         StaleSeries ''yfin_SPY__adj_close'' 19727 13 7],
      metrics = example_metrics\<rparr>"

section \<open>Storage properties\<close>

lemma catalog_entries_cases:
  "catalog_entries None = []"
  "catalog_entries (Some (JsonFile (JList es))) = es"
  "catalog_entries (Some (JsonFile (JObj m))) = [JObj m]"
  by (simp_all add: catalog_entries_def)

lemma append_catalog_entry_readable:
  assumes "readable_catalog (files p)"
  shows "append_catalog_entry p e files =
           Inr (files(p \<mapsto> JsonFile (JList (catalog_entries (files p) @ [e]))))"
proof (cases "files p")
  case None
  then show ?thesis
    by (simp add: append_catalog_entry_def catalog_entries_def bind_def)
next
  case (Some f)
  with assms obtain doc where f: "f = JsonFile doc"
    by (cases f) (simp_all add: readable_catalog_def)
  show ?thesis
    using Some f
    by (cases doc) (simp_all add: append_catalog_entry_def catalog_entries_def bind_def)
qed

text \<open>
  C7, as the code has it. When the catalog path holds no file or a file that parses as
  JSON (a list of entries, or a single document that is not a list),
  \<open>append_catalog_entry\<close> leaves at the catalog path the list of the prior entries
  followed by the new entry, where an absent file counts as the empty list and a single
  object as the one-element list holding it. Two appends in a row leave the prior entries
  followed by both new entries, the first one untouched, and no other path of the file
  system changes. A file that is present and does not parse is outside this statement:
  \<open>json.loads\<close> raises on it, see \<open>append_catalog_entry_unparseable\<close> below.
\<close>

theorem append_catalog_entry_appends:
  assumes "readable_catalog (files p)"
  shows "append_catalog_entry p e files =
           Inr (files(p \<mapsto> JsonFile (JList (catalog_entries (files p) @ [e]))))
       \<and> bind (append_catalog_entry p e files) (append_catalog_entry p e') =
           Inr (files(p \<mapsto> JsonFile (JList (catalog_entries (files p) @ [e, e']))))
       \<and> catalog_entries None = []
       \<and> catalog_entries (Some (JsonFile (JList es))) = es
       \<and> catalog_entries (Some (JsonFile (JObj m))) = [JObj m]"
proof -
  let ?files1 = "files(p \<mapsto> JsonFile (JList (catalog_entries (files p) @ [e])))"
  have one: "append_catalog_entry p e files = Inr ?files1"
    using assms by (rule append_catalog_entry_readable)
  have "readable_catalog (?files1 p)"
    by (simp add: readable_catalog_def)
  then have "append_catalog_entry p e' ?files1 =
      Inr (?files1(p \<mapsto> JsonFile (JList (catalog_entries (?files1 p) @ [e']))))"
    by (rule append_catalog_entry_readable)
  then have two: "bind (append_catalog_entry p e files) (append_catalog_entry p e') =
      Inr (files(p \<mapsto> JsonFile (JList (catalog_entries (files p) @ [e, e']))))"
    by (simp add: one bind_def catalog_entries_def)
  show ?thesis
    using one two by (simp add: catalog_entries_cases)
qed

theorem append_catalog_entry_appends_witness:
  "readable_catalog ((Map.empty(''data_catalog.json'' \<mapsto> JsonFile (JObj (fmupd ''run_id'' (JStr ''r0'') fmempty)))) ''data_catalog.json'')
   \<and> bind (append_catalog_entry ''data_catalog.json'' (JObj (fmupd ''run_id'' (JStr ''r1'') fmempty))
           (Map.empty(''data_catalog.json'' \<mapsto> JsonFile (JObj (fmupd ''run_id'' (JStr ''r0'') fmempty)))))
        (append_catalog_entry ''data_catalog.json'' (JObj (fmupd ''run_id'' (JStr ''r2'') fmempty)))
     = Inr (Map.empty(''data_catalog.json'' \<mapsto> JsonFile (JList
          [JObj (fmupd ''run_id'' (JStr ''r0'') fmempty),
           JObj (fmupd ''run_id'' (JStr ''r1'') fmempty),
           JObj (fmupd ''run_id'' (JStr ''r2'') fmempty)])))"
proof -
  let ?f = "Map.empty(''data_catalog.json'' \<mapsto> JsonFile (JObj (fmupd ''run_id'' (JStr ''r0'') fmempty)))"
  have h: "readable_catalog (?f ''data_catalog.json'')"
    by (simp add: readable_catalog_def)
  have "bind (append_catalog_entry ''data_catalog.json'' (JObj (fmupd ''run_id'' (JStr ''r1'') fmempty)) ?f)
          (append_catalog_entry ''data_catalog.json'' (JObj (fmupd ''run_id'' (JStr ''r2'') fmempty)))
        = Inr (?f(''data_catalog.json'' \<mapsto> JsonFile (JList (catalog_entries (?f ''data_catalog.json'')
            @ [JObj (fmupd ''run_id'' (JStr ''r1'') fmempty), JObj (fmupd ''run_id'' (JStr ''r2'') fmempty)]))))"
    using append_catalog_entry_appends [of ?f "''data_catalog.json''", OF h] by blast
  moreover have "catalog_entries (?f ''data_catalog.json'') = [JObj (fmupd ''run_id'' (JStr ''r0'') fmempty)]"
    by (simp add: catalog_entries_def)
  ultimately show ?thesis
    using h by simp
qed

text \<open>
  C7 as stated ranges over every state of the catalog file. It fails for a file that is
  there and is not JSON, such as an empty file or one cut short by an interrupted
  \<open>write_text\<close>: the unguarded \<open>json.loads\<close> raises and nothing is appended.
\<close>

theorem append_catalog_entry_unparseable:
  "append_catalog_entry ''data_catalog.json'' (JObj (fmupd ''run_id'' (JStr ''r1'') fmempty))
     (Map.empty(''data_catalog.json'' \<mapsto> OtherFile)) = Inl JSONDecodeError"
  by (simp add: append_catalog_entry_def bind_def)

text \<open>
  C8. For a table with no rows the year-partitioned writer returns the empty list and
  leaves the file system as it was (the same holds when the table has no columns, the
  other case of \<open>df.empty\<close>), while the standardized writer stores the table at
  \<open><base>/standardized/run_id=<run id>.parquet\<close> and returns that path with row count 0.
\<close>

theorem empty_table_writers:
  assumes "index_len (index df) = 0"
  shows "write_partitioned_by_year df base_dir source run_id files = Inr ([], files)
       \<and> write_standardized df base_dir run_id files =
           (\<lparr>path = base_dir @ ''/standardized/run_id='' @ run_id @ ''.parquet'', rows = 0\<rparr>,
            files(base_dir @ ''/standardized/run_id='' @ run_id @ ''.parquet'' \<mapsto> ParquetFile df))"
  using assms
  by (simp add: write_partitioned_by_year_def df_empty_def write_standardized_def
      write_parquet_def join_def)

theorem empty_table_writers_witness:
  "index_len (index \<lparr>index_name = Some ''date'', index = DatetimeIndex [],
        columns = [(''fred_DGS10'', \<lparr>object_dtype = False, cells = []\<rparr>)]\<rparr>) = 0
   \<and> write_partitioned_by_year \<lparr>index_name = Some ''date'', index = DatetimeIndex [],
        columns = [(''fred_DGS10'', \<lparr>object_dtype = False, cells = []\<rparr>)]\<rparr>
        ''data'' ''fred'' ''r1'' Map.empty = Inr ([], Map.empty)
   \<and> fst (write_standardized \<lparr>index_name = Some ''date'', index = DatetimeIndex [],
        columns = [(''fred_DGS10'', \<lparr>object_dtype = False, cells = []\<rparr>)]\<rparr>
        ''data'' ''r1'' Map.empty)
       = \<lparr>path = ''data/standardized/run_id=r1.parquet'', rows = 0\<rparr>"
proof -
  let ?df = "\<lparr>index_name = Some ''date'', index = DatetimeIndex [],
        columns = [(''fred_DGS10'', \<lparr>object_dtype = False, cells = []\<rparr>)]\<rparr>"
  have h: "index_len (index ?df) = 0" by simp
  show ?thesis
    using h empty_table_writers [OF h, of "''data''" "''fred''" "''r1''" Map.empty]
    by simp
qed

section \<open>Validation: the stages of \<open>validate_dataset\<close>\<close>

lemma bind_Inr [simp]: "bind (Inr x) f = f x"
  by (simp add: bind_def)

lemma bind_Inl [simp]: "bind (Inl e) f = Inl e"
  by (simp add: bind_def)

lemma bind_eq_Inr: "bind m f = Inr y \<longleftrightarrow> (\<exists>x. m = Inr x \<and> f x = Inr y)"
  by (cases m) simp_all

lemma for_each_invariant:
  assumes "for_each body xs st = Inr st'" and "P st"
    and "\<And>x s s'. x \<in> set xs \<Longrightarrow> P s \<Longrightarrow> body x s = Inr s' \<Longrightarrow> P s'"
  shows "P st'"
  using assms
proof (induction xs arbitrary: st)
  case Nil
  then show ?case by simp
next
  case (Cons x xs)
  from Cons.prems(1) obtain s1 where s1: "body x st = Inr s1" "for_each body xs s1 = Inr st'"
    by (auto simp: bind_eq_Inr)
  have "P s1" using Cons.prems(2,3) s1(1) by auto
  then show ?case using Cons.IH [OF s1(2)] Cons.prems(3) by auto
qed


lemma dict_keys_dom: "dict_keys m = dom (map_of m)"
  by (simp add: dict_keys_def dom_map_of_conv_image_fst)

lemma dict_keys_update: "dict_keys (AList.update k v m) = insert k (dict_keys m)"
  by (simp add: dict_keys_dom update_conv')





lemma set_item2_eq_Inr:
  "set_item2 k col v m = Inr m' \<Longrightarrow>
   \<exists>d. map_of m k = Some (PDict d) \<and> m' = AList.update k (PDict (AList.update col v d)) m"
  by (auto simp: set_item2_def split: option.splits pyval.splits)

lemma append_item_Inr:
  "map_of m k = Some (PList xs) \<Longrightarrow>
   append_item k col m = Inr (AList.update k (PList (xs @ [col])) m)"
  by (simp add: append_item_def)

lemma append_item_eq_Inr:
  "append_item k col m = Inr m' \<Longrightarrow>
   \<exists>xs. map_of m k = Some (PList xs) \<and> m' = AList.update k (PList (xs @ [col])) m"
  by (auto simp: append_item_def split: option.splits pyval.splits)

lemma is_dict_not_list: "is_dict x \<Longrightarrow> is_list x \<Longrightarrow> False"
  by (cases x rule: is_dict.cases) simp_all

lemma shaped_update_dict:
  assumes "shaped m" "is_dict (map_of m k)"
  shows "shaped (AList.update k (PDict d) m)"
proof -
  have "k \<noteq> ''stale_series''"
    using assms is_dict_not_list unfolding shaped_def by blast
  then show ?thesis
    using assms(1) by (simp add: shaped_def update_conv' dict_keys_update)
qed

lemma shaped_update_list:
  assumes "shaped m" "is_list (map_of m k)"
  shows "shaped (AList.update k (PList xs) m)"
proof -
  have "k \<noteq> ''missing_pct''" "k \<noteq> ''largest_missing_business_gap''"
       "k \<noteq> ''latest_date''" "k \<noteq> ''outlier_counts''"
    using assms is_dict_not_list unfolding shaped_def by blast+
  then show ?thesis
    using assms(1) by (simp add: shaped_def update_conv' dict_keys_update)
qed


lemma shaped_append_item:
  assumes "shaped m" "append_item k col m = Inr m'"
  shows "shaped m'"
proof -
  from append_item_eq_Inr [OF assms(2)] obtain xs where
    d: "map_of m k = Some (PList xs)" "m' = AList.update k (PList (xs @ [col])) m"
    by blast
  show ?thesis
    unfolding d(2) using assms(1) d(1) by (intro shaped_update_list) simp_all
qed

lemma dict_keys_update_present:
  "map_of m k = Some x \<Longrightarrow> dict_keys (AList.update k v m) = dict_keys m"
  unfolding dict_keys_update by (auto simp: dict_keys_dom)

lemma dict_keys_memI: "map_of m k = Some x \<Longrightarrow> k \<in> dict_keys m"
  by (simp add: dict_keys_dom domI)

lemma keys_set_item2:
  "set_item2 k col v m = Inr m' \<Longrightarrow> dict_keys m' = dict_keys m"
  using set_item2_eq_Inr dict_keys_update_present by blast

lemma keys_append_item:
  "append_item k col m = Inr m' \<Longrightarrow> dict_keys m' = dict_keys m"
  using append_item_eq_Inr dict_keys_update_present by blast

lemma check_required_column_absent:
  "col \<notin> set (column_names data) \<Longrightarrow> check_required_column pd data col st = Inr st"
  by (simp add: check_required_column_def)

lemma check_required_column_present:
  assumes "check_required_column pd data col st = Inr st'" "col \<in> set (column_names data)"
  obtains s b_idx reindexed latest dm dg dl where
    "getitem data col = Series s"
    "business_index (index data) = Inr b_idx"
    "reindex (index data) (cells s) b_idx = Inr reindexed"
    "latest_date (index data) (cells s) = Inr latest"
    "map_of (metrics st) ''missing_pct'' = Some (PDict dm)"
    "map_of (metrics st) ''largest_missing_business_gap'' = Some (PDict dg)"
    "map_of (metrics st) ''latest_date'' = Some (PDict dl)"
    "errors st' = errors st @ required_errors pd col s"
    "warnings st' = warnings st @ (if object_dtype s then [ObjectDtype col] else [])"
    "metrics st' =
       AList.update ''latest_date'' (PDict (AList.update col latest dl))
        (AList.update ''largest_missing_business_gap''
           (PDict (AList.update col
              (PInt (int (largest_consecutive_missing_business_days reindexed))) dg))
          (AList.update ''missing_pct''
             (PDict (AList.update col (PFloat (round4 (fmul (isna_mean (cells s)) (Fin 100)))) dm))
             (metrics st)))"
proof -
  from assms obtain s where s: "getitem data col = Series s"
    by (cases "getitem data col") (simp_all add: check_required_column_def)
  define st3 where "st3 =
     (let st1 = (if cells s = [] \<or> filter (\<lambda>c. \<not> isna c) (cells s) = []
                     then add_error (EmptyData col) st else st);
          st2 = (if length (filter (\<lambda>x. x = NaN) (map (to_numeric_cell pd) (cells s))) \<noteq> length (filter isna (cells s))
                     then add_error (MixedValues col) st1 else st1)
      in (if object_dtype s then add_warning (ObjectDtype col) st2 else st2))"
  have e3: "errors st3 = errors st @ required_errors pd col s"
    by (simp add: st3_def required_errors_def add_error_def add_warning_def Let_def)
  have w3: "warnings st3 = warnings st @ (if object_dtype s then [ObjectDtype col] else [])"
    by (simp add: st3_def add_error_def add_warning_def Let_def)
  have m3: "metrics st3 = metrics st"
    by (simp add: st3_def add_error_def add_warning_def Let_def)
  from assms s have run:
    "bind (set_item2 ''missing_pct'' col (PFloat (round4 (fmul (isna_mean (cells s)) (Fin 100)))) (metrics st3)) (\<lambda>m1.
             bind (business_index (index data)) (\<lambda>b_idx.
             bind (reindex (index data) (cells s) b_idx) (\<lambda>reindexed.
             bind (set_item2 ''largest_missing_business_gap'' col
                     (PInt (int (largest_consecutive_missing_business_days reindexed))) m1) (\<lambda>m2.
             bind (latest_date (index data) (cells s)) (\<lambda>latest.
             bind (set_item2 ''latest_date'' col latest m2) (\<lambda>m3.
             Inr (st3\<lparr>metrics := m3\<rparr>))))))) = Inr st'"
    unfolding check_required_column_def st3_def Let_def by simp
  then obtain m1 b_idx reindexed m2 latest m3' where
    a: "set_item2 ''missing_pct'' col (PFloat (round4 (fmul (isna_mean (cells s)) (Fin 100)))) (metrics st3) = Inr m1"
    and b: "business_index (index data) = Inr b_idx"
    and c: "reindex (index data) (cells s) b_idx = Inr reindexed"
    and d: "set_item2 ''largest_missing_business_gap'' col
                     (PInt (int (largest_consecutive_missing_business_days reindexed))) m1 = Inr m2"
    and e: "latest_date (index data) (cells s) = Inr latest"
    and f: "set_item2 ''latest_date'' col latest m2 = Inr m3'"
    and g: "st' = st3\<lparr>metrics := m3'\<rparr>"
    unfolding bind_eq_Inr by blast
  from set_item2_eq_Inr [OF a] obtain dm where
    dm: "map_of (metrics st) ''missing_pct'' = Some (PDict dm)"
        "m1 = AList.update ''missing_pct'' (PDict (AList.update col (PFloat (round4 (fmul (isna_mean (cells s)) (Fin 100)))) dm)) (metrics st)"
    unfolding m3 by blast
  from set_item2_eq_Inr [OF d] obtain dg where
    dg: "map_of m1 ''largest_missing_business_gap'' = Some (PDict dg)"
        "m2 = AList.update ''largest_missing_business_gap'' (PDict (AList.update col
              (PInt (int (largest_consecutive_missing_business_days reindexed))) dg)) m1"
    by blast
  from set_item2_eq_Inr [OF f] obtain dl where
    dl: "map_of m2 ''latest_date'' = Some (PDict dl)"
        "m3' = AList.update ''latest_date'' (PDict (AList.update col latest dl)) m2"
    by blast
  have dg': "map_of (metrics st) ''largest_missing_business_gap'' = Some (PDict dg)"
    using dg(1) by (simp add: dm(2) update_conv')
  have dl': "map_of (metrics st) ''latest_date'' = Some (PDict dl)"
    using dl(1) by (simp add: dg(2) dm(2) update_conv')
  show thesis
    by (rule that [OF s b c e dm(1) dg' dl'])
       (simp_all add: g e3 w3 dl(2) dg(2) dm(2))
qed

lemma check_impossible_absent:
  "col \<notin> set (column_names data) \<Longrightarrow> check_impossible pd data (col, rule) st = Inr st"
  by (simp add: check_impossible_def)

lemma check_impossible_present:
  assumes "check_impossible pd data (col, rule) st = Inr st'" "col \<in> set (column_names data)"
  obtains num where
    "to_numeric pd (getitem data col) = Inr num"
    "errors st' = errors st" "metrics st' = metrics st"
    "warnings st' = warnings st @
       (if 0 < length (filter rule num) then [ImpossibleValues col (length (filter rule num))] else [])"
proof -
  from assms obtain num where
    num: "to_numeric pd (getitem data col) = Inr num"
    and st': "st' = (if 0 < length (filter rule num)
                     then add_warning (ImpossibleValues col (length (filter rule num))) st else st)"
    by (auto simp: check_impossible_def bind_eq_Inr Let_def)
  show thesis
    by (rule that [OF num]) (simp_all add: st' add_warning_def)
qed

lemma check_outliers_absent:
  "col \<notin> set (column_names data) \<Longrightarrow> check_outliers pd data kind message col st = Inr st"
  by (simp add: check_outliers_def)

lemma check_outliers_present:
  assumes "check_outliers pd data kind message col st = Inr st'" "col \<in> set (column_names data)"
  obtains num d where
    "to_numeric pd (getitem data col) = Inr num"
    "map_of (metrics st) ''outlier_counts'' = Some (PDict d)"
    "errors st' = errors st"
    "warnings st' = warnings st @
       (if 0 < length (filter id (zscore_flags pd num kind))
        then [message col (length (filter id (zscore_flags pd num kind)))] else [])"
    "metrics st' = AList.update ''outlier_counts''
       (PDict (AList.update col (PInt (int (length (filter id (zscore_flags pd num kind))))) d))
       (metrics st)"
proof -
  from assms obtain num m where
    num: "to_numeric pd (getitem data col) = Inr num"
    and m: "set_item2 ''outlier_counts'' col
             (PInt (int (length (filter id (zscore_flags pd num kind))))) (metrics st) = Inr m"
    and st': "st' = (if 0 < length (filter id (zscore_flags pd num kind))
                     then add_warning (message col (length (filter id (zscore_flags pd num kind))))
                            (st\<lparr>metrics := m\<rparr>)
                     else st\<lparr>metrics := m\<rparr>)"
    by (auto simp: check_outliers_def bind_eq_Inr Let_def split: if_splits)
  from set_item2_eq_Inr [OF m] obtain d where
    d: "map_of (metrics st) ''outlier_counts'' = Some (PDict d)"
       "m = AList.update ''outlier_counts''
          (PDict (AList.update col (PInt (int (length (filter id (zscore_flags pd num kind))))) d))
          (metrics st)"
    by blast
  show thesis
    by (rule that [OF num d(1)]) (simp_all add: st' d(2) add_warning_def)
qed

lemma check_stale_eq:
  assumes "date_or_none (snd item)" "map_of (metrics st) ''stale_series'' = Some (PList xs)"
  shows "check_stale now_date item st =
     Inr (if stale_item now_date item
          then st\<lparr>warnings := warnings st @ [stale_message now_date item],
                   metrics := AList.update ''stale_series'' (PList (xs @ [fst item])) (metrics st)\<rparr>
          else st)"
proof (cases item)
  case (Pair col v)
  with assms show ?thesis
    by (cases v)
       (simp_all add: check_stale_def threshold_of_def append_item_Inr add_warning_def Let_def)
qed

lemma for_each_check_stale:
  assumes "\<forall>item \<in> set items. date_or_none (snd item)"
    and "map_of (metrics st) ''stale_series'' = Some (PList xs)"
  shows "\<exists>st'. for_each (check_stale now_date) items st = Inr st'
     \<and> errors st' = errors st
     \<and> warnings st' = warnings st @ map (stale_message now_date) (filter (stale_item now_date) items)
     \<and> map_of (metrics st') = (map_of (metrics st))
           (''stale_series'' \<mapsto> PList (xs @ map fst (filter (stale_item now_date) items)))
     \<and> dict_keys (metrics st') = dict_keys (metrics st)"
  using assms
proof (induction items arbitrary: st xs)
  case Nil
  then show ?case by (auto simp: fun_upd_idem)
next
  case (Cons item items)
  let ?s1 = "(if stale_item now_date item
          then st\<lparr>warnings := warnings st @ [stale_message now_date item],
                   metrics := AList.update ''stale_series'' (PList (xs @ [fst item])) (metrics st)\<rparr>
          else st)"
  have step: "check_stale now_date item st = Inr ?s1"
    using Cons.prems by (intro check_stale_eq) simp_all
  have m1: "map_of (metrics ?s1) ''stale_series'' =
      Some (PList (xs @ (if stale_item now_date item then [fst item] else [])))"
    using Cons.prems(2) by (simp add: update_conv')
  have items: "\<forall>item \<in> set items. date_or_none (snd item)"
    using Cons.prems(1) by simp
  from Cons.IH [OF items m1] obtain st' where
    st': "for_each (check_stale now_date) items ?s1 = Inr st'"
      "errors st' = errors ?s1"
      "warnings st' = warnings ?s1 @ map (stale_message now_date) (filter (stale_item now_date) items)"
      "map_of (metrics st') = (map_of (metrics ?s1))
           (''stale_series'' \<mapsto> PList ((xs @ (if stale_item now_date item then [fst item] else []))
               @ map fst (filter (stale_item now_date) items)))"
      "dict_keys (metrics st') = dict_keys (metrics ?s1)"
    by blast
  have k: "dict_keys (metrics ?s1) = dict_keys (metrics st)"
    using Cons.prems(2) by (simp add: dict_keys_update_present)
  have "for_each (check_stale now_date) (item # items) st = Inr st'"
    using step st'(1) by simp
  moreover have "errors st' = errors st"
    using st'(2) by simp
  moreover have "warnings st' = warnings st @
      map (stale_message now_date) (filter (stale_item now_date) (item # items))"
    using st'(3) by simp
  moreover have "map_of (metrics st') = (map_of (metrics st))
           (''stale_series'' \<mapsto> PList (xs @ map fst (filter (stale_item now_date) (item # items))))"
    using st'(4) by (simp add: update_conv')
  moreover have "dict_keys (metrics st') = dict_keys (metrics st)"
    using st'(5) k by simp
  ultimately show ?case by blast
qed

lemma extends_refl: "extends st st"
  by (simp add: extends_def)

lemma extends_trans:
  assumes "extends a b" "extends b c"
  shows "extends a c"
proof -
  from assms obtain e1 e2 w1 w2 where
    "errors b = errors a @ e1" "list_all is_integrity_error e1"
    "errors c = errors b @ e2" "list_all is_integrity_error e2"
    "warnings b = warnings a @ w1" "list_all (\<lambda>m. \<not> is_stale m) w1"
    "warnings c = warnings b @ w2" "list_all (\<lambda>m. \<not> is_stale m) w2"
    unfolding extends_def by blast
  then have "errors c = errors a @ (e1 @ e2) \<and> list_all is_integrity_error (e1 @ e2)"
    and "warnings c = warnings a @ (w1 @ w2) \<and> list_all (\<lambda>m. \<not> is_stale m) (w1 @ w2)"
    by simp_all
  then show ?thesis
    using assms unfolding extends_def by (metis (no_types, lifting))
qed

lemma keeps_refl: "keeps st st"
  by (simp add: keeps_def)

lemma keeps_trans: "keeps a b \<Longrightarrow> keeps b c \<Longrightarrow> keeps a c"
  by (simp add: keeps_def)

lemma for_each_rel:
  assumes "for_each body xs st = Inr st'"
    and "\<And>s. R s s" and "\<And>a b c. R a b \<Longrightarrow> R b c \<Longrightarrow> R a c"
    and "\<And>x s s'. x \<in> set xs \<Longrightarrow> body x s = Inr s' \<Longrightarrow> R s s'"
  shows "R st st'"
proof -
  have "R st st'"
    using assms(1)
  proof (rule for_each_invariant [where P = "R st"])
    show "R st st" by (rule assms(2))
  next
    fix x s s'
    assume "x \<in> set xs" "R st s" "body x s = Inr s'"
    then show "R st s'" using assms(3,4) by blast
  qed
  then show ?thesis .
qed

lemma required_errors_integrity: "list_all is_integrity_error (required_errors pd col s)"
  by (simp add: required_errors_def)

lemma check_required_column_extends:
  assumes "check_required_column pd data col st = Inr st'"
  shows "extends st st'"
proof (cases "col \<in> set (column_names data)")
  case False
  then show ?thesis
    using assms by (simp add: check_required_column_absent extends_refl)
next
  case True
  from check_required_column_present [OF assms True] obtain s b_idx reindexed latest dm dg dl where
    f: "map_of (metrics st) ''missing_pct'' = Some (PDict dm)"
    "map_of (metrics st) ''largest_missing_business_gap'' = Some (PDict dg)"
    "map_of (metrics st) ''latest_date'' = Some (PDict dl)"
    "errors st' = errors st @ required_errors pd col s"
    "warnings st' = warnings st @ (if object_dtype s then [ObjectDtype col] else [])"
    "metrics st' =
       AList.update ''latest_date'' (PDict (AList.update col latest dl))
        (AList.update ''largest_missing_business_gap''
           (PDict (AList.update col
              (PInt (int (largest_consecutive_missing_business_days reindexed))) dg))
          (AList.update ''missing_pct''
             (PDict (AList.update col (PFloat (round4 (fmul (isna_mean (cells s)) (Fin 100)))) dm))
             (metrics st)))"
    by metis
  have "''missing_pct'' \<in> dict_keys (metrics st)"
    "''largest_missing_business_gap'' \<in> dict_keys (metrics st)"
    "''latest_date'' \<in> dict_keys (metrics st)"
    using f(1,2,3) by (simp_all add: dict_keys_memI)
  then have keys: "dict_keys (metrics st') = dict_keys (metrics st)"
    by (simp add: f(6) dict_keys_update insert_absorb)
  have sh: "shaped (metrics st) \<Longrightarrow> shaped (metrics st')"
    unfolding f(6) using f(1,2,3)
    by (intro shaped_update_dict) (simp_all add: update_conv')
  show ?thesis
    unfolding extends_def
    using f(4,5) keys sh required_errors_integrity [of pd col s]
    by (auto simp: f(6) update_conv')
qed

lemma check_impossible_rel:
  assumes "check_impossible pd data entry st = Inr st'"
  shows "extends st st' \<and> keeps st st'"
proof (cases entry)
  case (Pair col rule)
  show ?thesis
  proof (cases "col \<in> set (column_names data)")
    case False
    then show ?thesis
      using assms Pair by (simp add: check_impossible_absent extends_refl keeps_refl)
  next
    case True
    from assms Pair have a: "check_impossible pd data (col, rule) st = Inr st'" by simp
    from check_impossible_present [OF a True] obtain num where
      "errors st' = errors st" "metrics st' = metrics st"
      "warnings st' = warnings st @
       (if 0 < length (filter rule num) then [ImpossibleValues col (length (filter rule num))] else [])"
      by metis
    then show ?thesis
      by (auto simp: extends_def keeps_def)
  qed
qed

lemma check_outliers_rel:
  assumes "check_outliers pd data kind message col st = Inr st'"
    and "\<And>c n. \<not> is_stale (message c n)"
  shows "extends st st' \<and> keeps st st'"
proof (cases "col \<in> set (column_names data)")
  case False
  then show ?thesis
    using assms by (simp add: check_outliers_absent extends_refl keeps_refl)
next
  case True
  from check_outliers_present [OF assms(1) True] obtain num d where
    f: "map_of (metrics st) ''outlier_counts'' = Some (PDict d)"
    "errors st' = errors st"
    "warnings st' = warnings st @
       (if 0 < length (filter id (zscore_flags pd num kind))
        then [message col (length (filter id (zscore_flags pd num kind)))] else [])"
    "metrics st' = AList.update ''outlier_counts''
       (PDict (AList.update col (PInt (int (length (filter id (zscore_flags pd num kind))))) d))
       (metrics st)"
    by metis
  have keys: "dict_keys (metrics st') = dict_keys (metrics st)"
    using f(1) by (simp add: f(4) dict_keys_update_present)
  have sh: "shaped (metrics st) \<Longrightarrow> shaped (metrics st')"
    unfolding f(4) using f(1) by (intro shaped_update_dict) simp_all
  show ?thesis
    unfolding extends_def keeps_def
    using f(2,3) keys sh assms(2)
    by (auto simp: f(4) update_conv')
qed

lemma fold_add_warning:
  "fold (\<lambda>col. add_warning (f col)) cols st = st\<lparr>warnings := warnings st @ map f cols\<rparr>"
  by (induction cols arbitrary: st) (simp_all add: add_warning_def)

lemma check_schema_facts:
  "list_all is_schema_error (errors (check_schema data \<lparr>errors = [], warnings = [], metrics = m\<rparr>))"
  "warnings (check_schema data \<lparr>errors = [], warnings = [], metrics = m\<rparr>) = []"
  "metrics (check_schema data \<lparr>errors = [], warnings = [], metrics = m\<rparr>) = m"
  by (auto simp: check_schema_def add_error_def Let_def split: index.splits)

lemma start_state_facts:
  "\<exists>schema. list_all is_schema_error schema \<and>
     errors (start_state data req opt) = schema @
       (if sorted_missing req data \<noteq> [] then [MissingColumns (sorted_missing req data)] else [])"
  "warnings (start_state data req opt) = map OptionalUnavailable (sorted_missing opt data)"
  "metrics (start_state data req opt) = init_metrics data"
proof -
  let ?s1 = "check_schema data \<lparr>errors = [], warnings = [], metrics = init_metrics data\<rparr>"
  have e: "errors (start_state data req opt) = errors ?s1 @
       (if sorted_missing req data \<noteq> [] then [MissingColumns (sorted_missing req data)] else [])"
    by (simp add: start_state_def check_columns_def Let_def fold_add_warning add_error_def)
  show "\<exists>schema. list_all is_schema_error schema \<and>
     errors (start_state data req opt) = schema @
       (if sorted_missing req data \<noteq> [] then [MissingColumns (sorted_missing req data)] else [])"
    using e check_schema_facts(1) by blast
  show "warnings (start_state data req opt) = map OptionalUnavailable (sorted_missing opt data)"
    by (simp add: start_state_def check_columns_def Let_def fold_add_warning add_error_def
        check_schema_facts)
  show "metrics (start_state data req opt) = init_metrics data"
    by (simp add: start_state_def check_columns_def Let_def fold_add_warning add_error_def
        check_schema_facts)
qed

lemma dict_items_eq_Inr:
  "dict_items k m = Inr items \<longleftrightarrow> map_of m k = Some (PDict items)"
  by (auto simp: dict_items_def split: option.splits pyval.splits)

lemma validate_dataset_stages:
  assumes "validate_dataset pd now_date data req opt mkt fred = Inr rep"
  obtains st3 st4 st5 st6 items st7 where
    "for_each (check_required_column pd data) req (start_state data req opt) = Inr st3"
    "for_each (check_impossible pd data) (impossible_rules data) st3 = Inr st4"
    "for_each (check_outliers pd data ''pct_change'' OutlierMarket) mkt st4 = Inr st5"
    "for_each (check_outliers pd data ''abs_change'' OutlierFred) fred st5 = Inr st6"
    "map_of (metrics st6) ''latest_date'' = Some (PDict items)"
    "for_each (check_stale now_date) items st6 = Inr st7"
    "rep = finish st7"
  using assms unfolding validate_dataset_def start_state_def Let_def bind_eq_Inr dict_items_eq_Inr
  by blast

lemma required_loop_extends:
  "for_each (check_required_column pd data) cols st = Inr st' \<Longrightarrow> extends st st'"
  by (erule for_each_rel [where R = extends])
     (auto intro: extends_refl extends_trans check_required_column_extends)

lemma impossible_loop_rel:
  assumes "for_each (check_impossible pd data) rules st = Inr st'"
  shows "extends st st'" "keeps st st'"
proof -
  show "extends st st'"
    using assms
    by (rule for_each_rel [where R = extends])
       (auto intro: extends_refl extends_trans dest: check_impossible_rel)
  show "keeps st st'"
    using assms
    by (rule for_each_rel [where R = keeps])
       (auto intro: keeps_refl keeps_trans dest: check_impossible_rel)
qed

lemma outliers_loop_rel:
  assumes "for_each (check_outliers pd data kind message) cols st = Inr st'"
    and "\<And>c n. \<not> is_stale (message c n)"
  shows "extends st st'" "keeps st st'"
proof -
  show "extends st st'"
    using assms(1)
    by (rule for_each_rel [where R = extends])
       (auto intro: extends_refl extends_trans dest: check_outliers_rel [OF _ assms(2)])
  show "keeps st st'"
    using assms(1)
    by (rule for_each_rel [where R = keeps])
       (auto intro: keeps_refl keeps_trans dest: check_outliers_rel [OF _ assms(2)])
qed

lemmas required_step = check_required_column_present [consumes 2, case_names present]

lemmas report_stages = validate_dataset_stages [consumes 1, case_names stages]

lemma set_update_subset: "set (AList.update k v al) \<subseteq> insert (k, v) (set al)"
  by (induction al) auto

lemma latest_date_date_or_none: "latest_date ix series = Inr v \<Longrightarrow> date_or_none v"
  by (auto simp: latest_date_def Let_def split: index.splits if_splits)

lemma latest_ok_init: "latest_ok (init_metrics data)"
  by (simp add: latest_ok_def init_metrics_def)

lemma check_required_column_latest_ok:
  assumes "check_required_column pd data col st = Inr st'" "latest_ok (metrics st)"
  shows "latest_ok (metrics st')"
proof (cases "col \<in> set (column_names data)")
  case False
  then show ?thesis
    using assms by (simp add: check_required_column_absent)
next
  case True
  from assms(1) True show ?thesis
  proof (cases rule: required_step)
    case (present s b_idx reindexed latest dm dg dl)
    from assms(2) present(7) have dl: "distinct (map fst dl)"
      "list_all (\<lambda>item. date_or_none (snd item)) dl"
      by (simp_all add: latest_ok_def)
    have "distinct (map fst (AList.update col latest dl))"
      using dl(1) by (rule distinct_update)
    moreover have "list_all (\<lambda>item. date_or_none (snd item)) (AList.update col latest dl)"
      using dl(2) latest_date_date_or_none [OF present(4)] set_update_subset [of col latest dl]
      by (auto simp: list_all_iff)
    ultimately show ?thesis
      by (simp add: latest_ok_def present(10) update_conv')
  qed
qed

lemma required_loop_latest_ok:
  "for_each (check_required_column pd data) cols st = Inr st' \<Longrightarrow> latest_ok (metrics st)
   \<Longrightarrow> latest_ok (metrics st')"
  by (erule for_each_invariant [where P = "\<lambda>s. latest_ok (metrics s)"])
     (auto intro: check_required_column_latest_ok)

lemma extendsD:
  assumes "extends st st'"
  obtains extra w where
    "errors st' = errors st @ extra" "list_all is_integrity_error extra"
    "warnings st' = warnings st @ w" "list_all (\<lambda>m. \<not> is_stale m) w"
    "dict_keys (metrics st') = dict_keys (metrics st)"
    "shaped (metrics st) \<Longrightarrow> shaped (metrics st')"
    "map_of (metrics st') ''stale_series'' = map_of (metrics st) ''stale_series''"
    "map_of (metrics st') ''row_count'' = map_of (metrics st) ''row_count''"
    "map_of (metrics st') ''column_count'' = map_of (metrics st) ''column_count''"
  using assms unfolding extends_def by blast

lemma keepsD:
  assumes "keeps st st'"
  shows "errors st' = errors st"
    and "k \<noteq> ''outlier_counts'' \<Longrightarrow> map_of (metrics st') k = map_of (metrics st) k"
  using assms unfolding keeps_def by simp_all

text \<open>
  What a returned report is made of: the state \<open>st3\<close> after the per-column loop, the state
  \<open>st6\<close> after the sign and outlier checks, and the staleness entries for the items of
  the latest-date dict.
\<close>

lemma validate_dataset_report:
  assumes "validate_dataset pd now_date data req opt mkt fred = Inr rep"
  obtains st3 st4 st6 items where
    "for_each (check_required_column pd data) req (start_state data req opt) = Inr st3"
    "for_each (check_impossible pd data) (impossible_rules data) st3 = Inr st4"
    "extends (start_state data req opt) st3"
    "extends st3 st4" "keeps st3 st4"
    "extends st4 st6" "keeps st4 st6"
    "map_of (metrics st6) ''latest_date'' = Some (PDict items)"
    "distinct (map fst items)" "list_all (\<lambda>item. date_or_none (snd item)) items"
    "errors rep = errors st3"
    "warnings rep = warnings st6 @ map (stale_message now_date) (filter (stale_item now_date) items)"
    "\<And>k. k \<notin> {''stale_series'', ''warnings_count'', ''errors_count''} \<Longrightarrow>
        map_of (metrics rep) k = map_of (metrics st6) k"
    "map_of (metrics rep) ''stale_series'' =
        Some (PList (map fst (filter (stale_item now_date) items)))"
    "map_of (metrics rep) ''warnings_count'' = Some (PInt (int (length (warnings rep))))"
    "map_of (metrics rep) ''errors_count'' = Some (PInt (int (length (errors rep))))"
    "dict_keys (metrics rep) =
        dict_keys (init_metrics data) \<union> {''warnings_count'', ''errors_count''}"
  using assms
proof (cases rule: report_stages)
  case s: (stages st3 st4 st5 st6 items st7)
  let ?st2 = "start_state data req opt"
  have m2: "metrics ?st2 = init_metrics data" by (rule start_state_facts(3))
  have e23: "extends ?st2 st3" using s(1) by (rule required_loop_extends)
  have e34: "extends st3 st4" and k34: "keeps st3 st4"
    using impossible_loop_rel [OF s(2)] by simp_all
  have e45: "extends st4 st5" and k45: "keeps st4 st5"
    using outliers_loop_rel [OF s(3)] by simp_all
  have e56: "extends st5 st6" and k56: "keeps st5 st6"
    using outliers_loop_rel [OF s(4)] by simp_all
  have e46: "extends st4 st6" using e45 e56 by (rule extends_trans)
  have k46: "keeps st4 st6" using k45 k56 by (rule keeps_trans)
  have e26: "extends ?st2 st6"
    using e23 e34 e46 by (blast intro: extends_trans)
  have k36: "keeps st3 st6" using k34 k46 by (rule keeps_trans)
  have "latest_ok (metrics st3)"
    using s(1) by (rule required_loop_latest_ok) (simp add: m2 latest_ok_init)
  moreover have "map_of (metrics st3) ''latest_date'' = Some (PDict items)"
    using keepsD(2) [OF k36, of "''latest_date''"] s(5) by simp
  ultimately have items: "distinct (map fst items)"
    "list_all (\<lambda>item. date_or_none (snd item)) items"
    by (simp_all add: latest_ok_def)
  have stale6: "map_of (metrics st6) ''stale_series'' = Some (PList [])"
    using e26 by (elim extendsD) (simp add: m2 init_metrics_def)
  have keys6: "dict_keys (metrics st6) = dict_keys (init_metrics data)"
    using e26 by (elim extendsD) (simp add: m2)
  have "\<forall>item \<in> set items. date_or_none (snd item)"
    using items(2) by (simp add: list_all_iff)
  from for_each_check_stale [OF this stale6, of now_date]
  obtain st7' where t0: "for_each (check_stale now_date) items st6 = Inr st7'
     \<and> errors st7' = errors st6
     \<and> warnings st7' = warnings st6 @ map (stale_message now_date) (filter (stale_item now_date) items)
     \<and> map_of (metrics st7') = (map_of (metrics st6))
           (''stale_series'' \<mapsto> PList ([] @ map fst (filter (stale_item now_date) items)))
     \<and> dict_keys (metrics st7') = dict_keys (metrics st6)" ..
  then have t: "for_each (check_stale now_date) items st6 = Inr st7'"
    "errors st7' = errors st6"
    "warnings st7' = warnings st6 @ map (stale_message now_date) (filter (stale_item now_date) items)"
    "map_of (metrics st7') = (map_of (metrics st6))
           (''stale_series'' \<mapsto> PList ([] @ map fst (filter (stale_item now_date) items)))"
    "dict_keys (metrics st7') = dict_keys (metrics st6)"
    by simp_all
  have st7: "st7' = st7" using t(1) s(6) by simp
  have e: "errors rep = errors st3"
    using keepsD(1) [OF k36] t(2) by (simp add: s(7) finish_def st7 [symmetric])
  have w: "warnings rep = warnings st6 @ map (stale_message now_date) (filter (stale_item now_date) items)"
    using t(3) by (simp add: s(7) finish_def st7 [symmetric])
  have mk: "\<And>k. k \<notin> {''stale_series'', ''warnings_count'', ''errors_count''} \<Longrightarrow>
        map_of (metrics rep) k = map_of (metrics st6) k"
    using t(4) by (simp add: s(7) finish_def st7 [symmetric] update_conv')
  have ms: "map_of (metrics rep) ''stale_series'' =
        Some (PList (map fst (filter (stale_item now_date) items)))"
    using t(4) by (simp add: s(7) finish_def st7 [symmetric] update_conv')
  have mw: "map_of (metrics rep) ''warnings_count'' = Some (PInt (int (length (warnings rep))))"
    by (simp add: s(7) finish_def update_conv')
  have me: "map_of (metrics rep) ''errors_count'' = Some (PInt (int (length (errors rep))))"
    by (simp add: s(7) finish_def update_conv')
  have keys: "dict_keys (metrics rep) =
        dict_keys (init_metrics data) \<union> {''warnings_count'', ''errors_count''}"
    using t(5) keys6 by (auto simp: s(7) finish_def st7 [symmetric] dict_keys_update)
  show thesis
    by (rule that [OF s(1,2) e23 e34 k34 e46 k46 s(5) items e w mk ms mw me keys])
qed

subsection \<open>The sample run, stage by stage\<close>

lemma validate_dataset_start_state:
  "validate_dataset pd now_date data req opt mkt fred =
     bind (for_each (check_required_column pd data) req (start_state data req opt)) (\<lambda>st3.
     bind (for_each (check_impossible pd data) (impossible_rules data) st3) (\<lambda>st4.
     bind (for_each (check_outliers pd data ''pct_change'' OutlierMarket) mkt st4) (\<lambda>st5.
     bind (for_each (check_outliers pd data ''abs_change'' OutlierFred) fred st5) (\<lambda>st6.
     bind (dict_items ''latest_date'' (metrics st6)) (\<lambda>items.
     bind (for_each (check_stale now_date) items st6) (\<lambda>st7.
     Inr (finish st7)))))))"
  by (simp add: validate_dataset_def start_state_def Let_def)

lemma example_names: "column_names example_table = [''fred_DGS10'', ''yfin_SPY__adj_close'']"
  by (simp add: column_names_def example_table_def)

lemma example_getitem:
  "getitem example_table ''fred_DGS10'' =
     Series \<lparr>object_dtype = False, cells = [Num (Fin 4), Num NaN, Num (Fin 4)]\<rparr>"
  "getitem example_table ''yfin_SPY__adj_close'' =
     Series \<lparr>object_dtype = False, cells = [Num (Fin (- 1)), Num (Fin 401), Num (Fin (- 2))]\<rparr>"
  by (simp_all add: getitem_def example_table_def)

lemma example_business_index:
  "business_index (index example_table) = Inr [19723, 19724, 19725, 19726, 19727]"
  by (simp add: business_index_def example_table_def bdate_range_def is_business_day_def
      weekday_def)

lemma example_start:
  "start_state example_table example_required [''yfin_SPY__volume''] =
     \<lparr>errors = [MissingColumns [''fred_DGS2'']],
      warnings = [OptionalUnavailable ''yfin_SPY__volume''],
      metrics = init_metrics example_table\<rparr>"
  by (simp add: start_state_def check_schema_def check_columns_def sorted_missing_def
      example_names add_error_def add_warning_def example_required_def Let_def)
     (simp add: example_table_def)

lemma example_column_1:
  "check_required_column example_pandas example_table ''fred_DGS10''
     \<lparr>errors = e, warnings = w, metrics = init_metrics example_table\<rparr> =
   Inr \<lparr>errors = e, warnings = w, metrics =
     [(''row_count'', PInt 3), (''column_count'', PInt 2),
      (''missing_pct'', PDict [(''fred_DGS10'', PFloat (Fin (333333 / 10000)))]),
      (''largest_missing_business_gap'', PDict [(''fred_DGS10'', PInt 3)]),
      (''latest_date'', PDict [(''fred_DGS10'', PDate 19727)]),
      (''outlier_counts'', PDict []), (''stale_series'', PList [])]\<rparr>"
  unfolding check_required_column_def example_names example_getitem example_business_index
  by (simp add: example_pandas_def example_table_def init_metrics_def set_item2_def
      reindex_def latest_date_def isna_mean_def round_half_even_def
      largest_consecutive_missing_business_days_def Let_def)

lemma example_column_2:
  "check_required_column example_pandas example_table ''fred_DGS2'' st = Inr st"
  by (simp add: check_required_column_def example_names)

lemma example_column_3:
  "check_required_column example_pandas example_table ''yfin_SPY__adj_close''
     \<lparr>errors = e, warnings = w, metrics =
     [(''row_count'', PInt 3), (''column_count'', PInt 2),
      (''missing_pct'', PDict [(''fred_DGS10'', PFloat (Fin (333333 / 10000)))]),
      (''largest_missing_business_gap'', PDict [(''fred_DGS10'', PInt 3)]),
      (''latest_date'', PDict [(''fred_DGS10'', PDate 19727)]),
      (''outlier_counts'', PDict []), (''stale_series'', PList [])]\<rparr> =
   Inr \<lparr>errors = e, warnings = w, metrics =
     [(''row_count'', PInt 3), (''column_count'', PInt 2),
      (''missing_pct'',
         PDict [(''fred_DGS10'', PFloat (Fin (333333 / 10000))),
                (''yfin_SPY__adj_close'', PFloat (Fin 0))]),
      (''largest_missing_business_gap'',
         PDict [(''fred_DGS10'', PInt 3), (''yfin_SPY__adj_close'', PInt 2)]),
      (''latest_date'',
         PDict [(''fred_DGS10'', PDate 19727), (''yfin_SPY__adj_close'', PDate 19727)]),
      (''outlier_counts'', PDict []), (''stale_series'', PList [])]\<rparr>"
  unfolding check_required_column_def example_names example_getitem example_business_index
  by (simp add: example_pandas_def example_table_def set_item2_def
      reindex_def latest_date_def isna_mean_def round_half_even_def
      largest_consecutive_missing_business_days_def Let_def)

lemma example_impossible:
  "for_each (check_impossible example_pandas example_table) (impossible_rules example_table)
     \<lparr>errors = e, warnings = w, metrics = m\<rparr> =
   Inr \<lparr>errors = e, warnings = w @ [ImpossibleValues ''yfin_SPY__adj_close'' 2], metrics = m\<rparr>"
  by (simp add: impossible_rules_def example_names suffix_to_prefix check_impossible_def
      example_getitem to_numeric_def negative_def add_warning_def Let_def)

lemma example_outliers:
  "check_outliers example_pandas example_table ''abs_change'' OutlierFred ''fred_DGS10''
     \<lparr>errors = e, warnings = w, metrics =
     [(''row_count'', PInt 3), (''column_count'', PInt 2),
      (''missing_pct'',
         PDict [(''fred_DGS10'', PFloat (Fin (333333 / 10000))),
                (''yfin_SPY__adj_close'', PFloat (Fin 0))]),
      (''largest_missing_business_gap'',
         PDict [(''fred_DGS10'', PInt 3), (''yfin_SPY__adj_close'', PInt 2)]),
      (''latest_date'',
         PDict [(''fred_DGS10'', PDate 19727), (''yfin_SPY__adj_close'', PDate 19727)]),
      (''outlier_counts'', PDict []), (''stale_series'', PList [])]\<rparr> =
   Inr \<lparr>errors = e, warnings = w, metrics =
     [(''row_count'', PInt 3), (''column_count'', PInt 2),
      (''missing_pct'',
         PDict [(''fred_DGS10'', PFloat (Fin (333333 / 10000))),
                (''yfin_SPY__adj_close'', PFloat (Fin 0))]),
      (''largest_missing_business_gap'',
         PDict [(''fred_DGS10'', PInt 3), (''yfin_SPY__adj_close'', PInt 2)]),
      (''latest_date'',
         PDict [(''fred_DGS10'', PDate 19727), (''yfin_SPY__adj_close'', PDate 19727)]),
      (''outlier_counts'', PDict [(''fred_DGS10'', PInt 0)]), (''stale_series'', PList [])]\<rparr>"
  unfolding check_outliers_def example_names example_getitem
  by (simp add: to_numeric_def zscore_flags_def series_diff_def shift1_def std_skipna_def
      dropna_fl_def fsub_def fgt_def set_item2_def Let_def)

lemma example_run:
  "validate_dataset example_pandas 19740 example_table example_required [''yfin_SPY__volume'']
     [] [''fred_DGS10''] = Inr example_report"
  unfolding validate_dataset_start_state example_start
  by (simp add: example_required_def example_column_1 example_column_2 example_column_3
      example_impossible example_outliers dict_items_def check_stale_def append_item_def
      add_warning_def finish_def example_report_def example_metrics_def)

section \<open>Properties of \<open>validate_dataset\<close>\<close>

lemmas report_cases = validate_dataset_report [consumes 1, case_names report]

text \<open>
  C10. Every report that \<open>validate_dataset\<close> returns has the keys \<open>row_count\<close>,
  \<open>column_count\<close>, \<open>missing_pct\<close>, \<open>largest_missing_business_gap\<close>, \<open>latest_date\<close>,
  \<open>outlier_counts\<close> and \<open>stale_series\<close> in its metrics, and its \<open>warnings_count\<close> and
  \<open>errors_count\<close> are the lengths of its warnings and errors lists.
\<close>

theorem metrics_keys_and_counts:
  assumes "validate_dataset pd now_date data req opt mkt fred = Inr rep"
  shows "''row_count'' \<in> fst ` set (metrics rep)
       \<and> ''column_count'' \<in> fst ` set (metrics rep)
       \<and> ''missing_pct'' \<in> fst ` set (metrics rep)
       \<and> ''largest_missing_business_gap'' \<in> fst ` set (metrics rep)
       \<and> ''latest_date'' \<in> fst ` set (metrics rep)
       \<and> ''outlier_counts'' \<in> fst ` set (metrics rep)
       \<and> ''stale_series'' \<in> fst ` set (metrics rep)
       \<and> map_of (metrics rep) ''warnings_count'' = Some (PInt (int (length (warnings rep))))
       \<and> map_of (metrics rep) ''errors_count'' = Some (PInt (int (length (errors rep))))"
  using assms
proof (cases rule: report_cases)
  case (report st3 st4 st6 items)
  have "fst ` set (metrics rep) =
      dict_keys (init_metrics data) \<union> {''warnings_count'', ''errors_count''}"
    using report(17) by (simp add: dict_keys_def)
  then show ?thesis
    using report(15,16) by (simp add: init_metrics_def dict_keys_def)
qed

theorem metrics_keys_and_counts_witness:
  "validate_dataset example_pandas 19740 example_table example_required [''yfin_SPY__volume'']
     [] [''fred_DGS10''] = Inr example_report
   \<and> ''stale_series'' \<in> fst ` set (metrics example_report)
   \<and> map_of (metrics example_report) ''warnings_count'' = Some (PInt 3)
   \<and> length (warnings example_report) = 3
   \<and> map_of (metrics example_report) ''errors_count'' = Some (PInt 1)
   \<and> length (errors example_report) = 1"
  using example_run metrics_keys_and_counts [OF example_run]
  by (simp add: example_report_def)

lemma for_each_establish:
  assumes "for_each body xs st = Inr st'" "x \<in> set xs"
    and "\<And>s s'. body x s = Inr s' \<Longrightarrow> Q s'"
    and "\<And>y s s'. y \<in> set xs \<Longrightarrow> Q s \<Longrightarrow> body y s = Inr s' \<Longrightarrow> Q s'"
  shows "Q st'"
  using assms
proof (induction xs arbitrary: st)
  case Nil
  then show ?case by simp
next
  case (Cons y ys)
  from Cons.prems(1) obtain s1 where s1: "body y st = Inr s1" "for_each body ys s1 = Inr st'"
    by (auto simp: bind_eq_Inr)
  show ?case
  proof (cases "x = y")
    case True
    with s1(1) Cons.prems(3) have "Q s1" by simp
    with s1(2) show ?thesis
      by (rule for_each_invariant) (use Cons.prems(4) in auto)
  next
    case False
    with Cons.prems(2) have "x \<in> set ys" by simp
    with s1(2) show ?thesis
    proof (rule Cons.IH)
      show "\<And>s s'. body x s = Inr s' \<Longrightarrow> Q s'"
        by (rule Cons.prems(3))
      show "\<And>z s s'. z \<in> set ys \<Longrightarrow> Q s \<Longrightarrow> body z s = Inr s' \<Longrightarrow> Q s'"
        using Cons.prems(4) by (meson list.set_intros(2))
    qed
  qed
qed

lemma sorted_missing_eq:
  "sorted_missing wanted data = sorted_list_of_set (set wanted - set (column_names data))"
proof -
  have "set wanted - set (column_names data) =
      set (filter (\<lambda>c. c \<notin> set (column_names data)) wanted)"
    by auto
  then show ?thesis
    by (simp only: sorted_missing_def sorted_list_of_set_sort_remdups)
qed

lemma filter_missing_schema: "list_all is_schema_error xs \<Longrightarrow> filter is_missing_columns xs = []"
proof (induction xs)
  case Nil
  then show ?case by simp
next
  case (Cons x xs)
  then show ?case by (cases x) simp_all
qed

lemma filter_missing_integrity:
  "list_all is_integrity_error xs \<Longrightarrow> filter is_missing_columns xs = []"
proof (induction xs)
  case Nil
  then show ?case by simp
next
  case (Cons x xs)
  then show ?case by (cases x) simp_all
qed

text \<open>
  C2. When the table lacks one or more of the required columns, exactly one entry of the
  report's errors is the missing-columns error, and it carries the missing required ids,
  each once, in sorted order.
\<close>

theorem missing_required_columns_error:
  assumes "validate_dataset pd now_date data req opt mkt fred = Inr rep"
    and "\<not> set req \<subseteq> set (column_names data)"
  shows "filter is_missing_columns (errors rep) =
           [MissingColumns (sorted_list_of_set (set req - set (column_names data)))]"
  using assms(1)
proof (cases rule: report_cases)
  case (report st3 st4 st6 items)
  from start_state_facts(1) [of data req opt] obtain schema where
    schema: "list_all is_schema_error schema"
      "errors (start_state data req opt) = schema @
       (if sorted_missing req data \<noteq> [] then [MissingColumns (sorted_missing req data)] else [])"
    by blast
  have "set req - set (column_names data) \<noteq> {}"
    using assms(2) by auto
  then have ne: "sorted_missing req data \<noteq> []"
    by (simp add: sorted_missing_eq)
  from report(3) obtain extra where
    extra: "errors st3 = errors (start_state data req opt) @ extra"
      "list_all is_integrity_error extra"
    by (rule extendsD)
  have "errors rep = schema @ [MissingColumns (sorted_missing req data)] @ extra"
    using report(11) extra(1) schema(2) ne by simp
  then show ?thesis
    using filter_missing_schema [OF schema(1)] filter_missing_integrity [OF extra(2)]
    by (simp add: sorted_missing_eq)
qed

theorem missing_required_columns_error_witness:
  "validate_dataset example_pandas 19740 example_table example_required [''yfin_SPY__volume'']
     [] [''fred_DGS10''] = Inr example_report
   \<and> \<not> set example_required \<subseteq> set (column_names example_table)
   \<and> sorted_list_of_set (set example_required - set (column_names example_table)) = [''fred_DGS2'']
   \<and> filter is_missing_columns (errors example_report) = [MissingColumns [''fred_DGS2'']]"
proof -
  have h: "\<not> set example_required \<subseteq> set (column_names example_table)"
    by (simp add: example_required_def example_names)
  have e: "filter is_missing_columns (errors example_report) = [MissingColumns [''fred_DGS2'']]"
    by (simp add: example_report_def)
  show ?thesis
    using example_run h e missing_required_columns_error [OF example_run h]
    by simp
qed

lemma getitem_Series_mem: "getitem data col = Series s \<Longrightarrow> col \<in> set (column_names data)"
proof -
  assume "getitem data col = Series s"
  then have "filter (\<lambda>(name, c). name = col) (columns data) \<noteq> []"
    by (auto simp: getitem_def split: list.splits)
  then obtain name c where "(name, c) \<in> set (columns data)" "name = col"
    by (auto simp: filter_empty_conv)
  then show ?thesis
    by (force simp: column_names_def)
qed

lemma monitored_rule:
  assumes "monitored col" "col \<in> set (column_names data)"
  shows "(col, negative) \<in> set (impossible_rules data)"
  using assms by (auto simp: monitored_def impossible_rules_def)

lemma negative_rows_numeric:
  "length (filter negative (map (to_numeric_cell pd) (cells s))) = negative_rows pd s"
  by (simp add: negative_rows_def filter_map comp_def negative_def)

lemma check_impossible_warnings_grow:
  assumes "check_impossible pd data entry s = Inr s'" "m \<in> set (warnings s)"
  shows "m \<in> set (warnings s')"
proof -
  from check_impossible_rel [OF assms(1)] have "extends s s'" by simp
  then obtain w where "warnings s' = warnings s @ w"
    by (rule extendsD)
  with assms(2) show ?thesis by simp
qed

text \<open>
  C4. For a monitored column of the table with at least one negative value, the report has
  the impossible-values warning for that column with the number of its negative rows as
  count. The sign check adds no error: the errors of the report are those that stood when
  the per-column integrity checks ended, and each of them is a schema error, the
  missing-columns error or an integrity error of a required column.
\<close>

theorem negative_values_warning:
  assumes "validate_dataset pd now_date data req opt mkt fred = Inr rep"
    and "getitem data col = Series s"
    and "monitored col"
    and "0 < negative_rows pd s"
  shows "ImpossibleValues col (negative_rows pd s) \<in> set (warnings rep)
       \<and> (\<exists>st3. for_each (check_required_column pd data) req (start_state data req opt) = Inr st3
              \<and> errors rep = errors st3)
       \<and> list_all (\<lambda>e. is_schema_error e \<or> is_missing_columns e \<or> is_integrity_error e)
            (errors rep)"
  using assms(1)
proof (cases rule: report_cases)
  case (report st3 st4 st6 items)
  let ?m = "ImpossibleValues col (negative_rows pd s)"
  have mem: "col \<in> set (column_names data)"
    using assms(2) by (rule getitem_Series_mem)
  have rule: "(col, negative) \<in> set (impossible_rules data)"
    using assms(3) mem by (rule monitored_rule)
  have "?m \<in> set (warnings st4)"
    using report(2) rule
  proof (rule for_each_establish)
    fix s0 s1
    assume step: "check_impossible pd data (col, negative) s0 = Inr s1"
    from step mem show "?m \<in> set (warnings s1)"
    proof (cases rule: check_impossible_present [consumes 2, case_names present])
      case (present num)
      from present(1) have "num = map (to_numeric_cell pd) (cells s)"
        by (simp add: to_numeric_def assms(2))
      then have "length (filter negative num) = negative_rows pd s"
        by (simp only: negative_rows_numeric)
      then show ?thesis
        using present(4) assms(4) by simp
    qed
  next
    fix y s0 s1
    assume "?m \<in> set (warnings s0)" "check_impossible pd data y s0 = Inr s1"
    then show "?m \<in> set (warnings s1)"
      by (rule check_impossible_warnings_grow [rotated])
  qed
  moreover from report(6) obtain w where "warnings st6 = warnings st4 @ w"
    by (rule extendsD)
  ultimately have w: "?m \<in> set (warnings rep)"
    using report(12) by simp
  from start_state_facts(1) [of data req opt] obtain schema where
    schema: "list_all is_schema_error schema"
      "errors (start_state data req opt) = schema @
       (if sorted_missing req data \<noteq> [] then [MissingColumns (sorted_missing req data)] else [])"
    by blast
  from report(3) obtain extra where
    extra: "errors st3 = errors (start_state data req opt) @ extra"
      "list_all is_integrity_error extra"
    by (rule extendsD)
  have kinds: "list_all (\<lambda>e. is_schema_error e \<or> is_missing_columns e \<or> is_integrity_error e)
            (errors rep)"
    using schema(1) extra(2)
    by (auto simp: report(11) extra(1) schema(2) list_all_iff)
  show ?thesis
    using w report(1,11) kinds by blast
qed

theorem negative_values_warning_witness:
  "validate_dataset example_pandas 19740 example_table example_required [''yfin_SPY__volume'']
     [] [''fred_DGS10''] = Inr example_report
   \<and> getitem example_table ''yfin_SPY__adj_close'' =
       Series \<lparr>object_dtype = False, cells = [Num (Fin (- 1)), Num (Fin 401), Num (Fin (- 2))]\<rparr>
   \<and> monitored ''yfin_SPY__adj_close''
   \<and> negative_rows example_pandas
        \<lparr>object_dtype = False, cells = [Num (Fin (- 1)), Num (Fin 401), Num (Fin (- 2))]\<rparr> = 2
   \<and> ImpossibleValues ''yfin_SPY__adj_close'' 2 \<in> set (warnings example_report)
   \<and> errors example_report = [MissingColumns [''fred_DGS2'']]"
proof -
  let ?s = "\<lparr>object_dtype = False, cells = [Num (Fin (- 1)), Num (Fin 401), Num (Fin (- 2))]\<rparr>"
  have m: "monitored ''yfin_SPY__adj_close''"
    by (simp add: monitored_def suffix_to_prefix)
  have n: "negative_rows example_pandas ?s = 2"
    by (simp add: negative_rows_def)
  then have p: "0 < negative_rows example_pandas ?s" by simp
  show ?thesis
    using example_run example_getitem(2) m n
      negative_values_warning [OF example_run example_getitem(2) m p]
    by (simp add: example_report_def)
qed

subsection \<open>When \<open>validate_dataset\<close> returns\<close>












text \<open>The other two ways to make the calendar reindexing raise: a table without rows and a
  table with a date twice.\<close>

lemma validate_dataset_raises_on_empty_index:
  "validate_dataset example_pandas 19740
     \<lparr>index_name = Some ''date'', index = DatetimeIndex [],
      columns = [(''fred_DGS10'', \<lparr>object_dtype = False, cells = []\<rparr>)]\<rparr>
     [''fred_DGS10''] [] [] [] = Inl ValueError"
proof -
  let ?t = "\<lparr>index_name = Some ''date'', index = DatetimeIndex [],
      columns = [(''fred_DGS10'', \<lparr>object_dtype = False, cells = []\<rparr>)]\<rparr>"
  have "check_required_column example_pandas ?t ''fred_DGS10''
          (start_state ?t [''fred_DGS10''] []) = Inl ValueError"
    by (simp add: check_required_column_def column_names_def getitem_def business_index_def
        start_state_facts(3) init_metrics_def set_item2_def Let_def add_error_def add_warning_def)
  then show ?thesis
    by (simp add: validate_dataset_start_state)
qed

lemma validate_dataset_raises_on_duplicate_dates:
  "validate_dataset example_pandas 19740 (example_table\<lparr>index := DatetimeIndex [19723, 19724, 19724]\<rparr>)
     [''fred_DGS10''] [] [] [] = Inl ValueError"
proof -
  let ?t = "example_table\<lparr>index := DatetimeIndex [19723, 19724, 19724]\<rparr>"
  have n: "column_names ?t = [''fred_DGS10'', ''yfin_SPY__adj_close'']"
    by (simp add: column_names_def example_table_def)
  have g: "getitem ?t ''fred_DGS10'' =
     Series \<lparr>object_dtype = False, cells = [Num (Fin 4), Num NaN, Num (Fin 4)]\<rparr>"
    by (simp add: getitem_def example_table_def)
  have b: "business_index (index ?t) = Inr [19723, 19724]"
    by (simp add: business_index_def bdate_range_def is_business_day_def weekday_def)
  have "check_required_column example_pandas ?t ''fred_DGS10''
          (start_state ?t [''fred_DGS10''] []) = Inl ValueError"
    unfolding check_required_column_def n g b
    by (simp add: start_state_facts(3) init_metrics_def set_item2_def reindex_def Let_def
        add_error_def add_warning_def)
  then show ?thesis
    by (simp add: validate_dataset_start_state)
qed

end
